theory Spec2Isabelle
  imports Main
begin

section \<open>Data model of the generation-state engine\<close>

text \<open>
  The engine is the state of the \<open>App\<close> component: one \<open>useState\<close> cell per field,
  handlers that update the cells, memoised values derived from them and three effects.
  A handler is a function from the state to the updated state; the asynchronous
  handlers are split at their \<open>await\<close>s into the synchronous submission and the two
  continuations (success, failure) that run when the external call settles.
\<close>

datatype Mode = Background | AiModel
datatype BackgroundSubMode = Color | Scene
datatype ServiceBackgroundSubMode = SvcColor | SvcScene | SvcTransparent
datatype Gender = Any | Male | Female
datatype ModelSource = Ai | Custom
datatype LoadingStep = NotLoading | Generating | BlendingConcepts
datatype AppTab = Settings | History
datatype ImageType = Product | Model
datatype GenStatus = Loading | Done

text \<open>The five keys of \<open>GenerationStacks\<close> (\<open>keyof GenerationStacks\<close>).\<close>

datatype FeatureKey =
  BackgroundColor | BackgroundScene | BackgroundTransparent | AiModelAi | AiModelCustom

text \<open>
  \<open>LoadingStep\<close> is a string type; \<open>NotLoading\<close> is the empty string, the only falsy
  value of the three.
\<close>

definition truthyStep :: "LoadingStep \<Rightarrow> bool" where
  "truthyStep l = (l \<noteq> NotLoading)"

text \<open>A \<open>string | null\<close> is truthy when it is neither null nor the empty string.\<close>

definition truthy :: "string option \<Rightarrow> bool" where
  "truthy u = (case u of None \<Rightarrow> False | Some s \<Rightarrow> s \<noteq> [])"

record ImageState =
  url :: "string option"
  file_ref :: "string option"
  originalWidth :: int
  originalHeight :: int

record PromptBuilderSettings =
  style :: string
  composition :: string
  lighting :: string

record OperationStatus =
  isLoading :: LoadingStep
  error :: "string option"

text \<open>
  The thirteen controls that a snapshot copies. The state cells and the fields of
  \<open>GenerationStateSnapshot\<close> carry the same names in the source, so both records extend
  this one and share its selectors.
\<close>

record Controls =
  mode :: Mode
  backgroundSubMode :: BackgroundSubMode
  modelSource :: ModelSource
  backgroundColor :: string
  scenePrompt :: string
  aspectRatio :: string
  promptEnhancer :: bool
  aiGeneratedPrompt :: string
  yourModelPrompt :: string
  gender :: Gender
  promptBuilder :: PromptBuilderSettings
  aiGeneratedPromptEnhancer :: bool
  yourModelPromptEnhancer :: bool

record GenerationStateSnapshot = Controls +
  productImageUrl :: "string option"
  modelImageUrl :: "string option"

record SessionGeneration =
  id_of :: nat
  src :: "string option"
  status :: GenStatus
  featureKey :: FeatureKey
  snapshot :: GenerationStateSnapshot

record GenerationStack =
  images :: "string list"
  currentIndex :: int

text \<open>
  The objects \<open>GenerationStacks\<close>, \<open>BackgroundStatuses\<close>, \<open>AiModelStatuses\<close> and
  \<open>AiModelPromptLoading\<close> have a fixed set of keys: they are functions on the key type,
  and \<open>{...s, [k]: v}\<close> is the function update \<open>s(k := v)\<close>.
\<close>

record AppState = Controls +
  uploadKey :: nat
  activeTab :: AppTab
  isMobileHistoryOpen :: bool
  newHistoryNotification :: bool
  productImage :: ImageState
  modelImage :: ImageState
  generationStacks :: "FeatureKey \<Rightarrow> GenerationStack"
  sessionGenerations :: "SessionGeneration list"
  activeGenerationId :: "nat option"
  generationIdCounter :: nat
  backgroundStatuses :: "ServiceBackgroundSubMode \<Rightarrow> OperationStatus"
  aiModelStatuses :: "ModelSource \<Rightarrow> OperationStatus"
  isScenePromptLoading :: bool
  isAiModelPromptLoading :: "ModelSource \<Rightarrow> bool"

subsection \<open>Initial values\<close>

definition initialProductImage :: ImageState where
  "initialProductImage = \<lparr>url = None, file_ref = None, originalWidth = 0, originalHeight = 0\<rparr>"

definition initialModelImage :: ImageState where
  "initialModelImage = \<lparr>url = None, file_ref = None, originalWidth = 0, originalHeight = 0\<rparr>"

definition initialPromptBuilder :: PromptBuilderSettings where
  "initialPromptBuilder =
     \<lparr>style = ''Photorealistic'', composition = ''Medium Shot'', lighting = ''Natural Light''\<rparr>"

definition initialOpStatus :: OperationStatus where
  "initialOpStatus = \<lparr>isLoading = NotLoading, error = None\<rparr>"

definition initialBackgroundStatuses :: "ServiceBackgroundSubMode \<Rightarrow> OperationStatus" where
  "initialBackgroundStatuses = (\<lambda>k. initialOpStatus)"

definition initialAiModelStatuses :: "ModelSource \<Rightarrow> OperationStatus" where
  "initialAiModelStatuses = (\<lambda>k. initialOpStatus)"

definition initialAiModelPromptLoading :: "ModelSource \<Rightarrow> bool" where
  "initialAiModelPromptLoading = (\<lambda>k. False)"

definition initialGenerationStack :: GenerationStack where
  "initialGenerationStack = \<lparr>images = [], currentIndex = - 1\<rparr>"

definition initialGenerationStacks :: "FeatureKey \<Rightarrow> GenerationStack" where
  "initialGenerationStacks = (\<lambda>k. initialGenerationStack\<lparr>images := []\<rparr>)"

text \<open>The arguments of the \<open>useState\<close> and \<open>useRef\<close> calls of \<open>App\<close>.\<close>

definition initialState :: AppState where
  "initialState =
     \<lparr>mode = Background, backgroundSubMode = Color, modelSource = Ai,
      backgroundColor = ''#f0f0f0'', scenePrompt = [], aspectRatio = ''1:1'',
      promptEnhancer = True, aiGeneratedPrompt = [], yourModelPrompt = [],
      gender = Any, promptBuilder = initialPromptBuilder,
      aiGeneratedPromptEnhancer = True, yourModelPromptEnhancer = True,
      uploadKey = 0, activeTab = Settings, isMobileHistoryOpen = False,
      newHistoryNotification = False,
      productImage = initialProductImage, modelImage = initialModelImage,
      generationStacks = initialGenerationStacks,
      sessionGenerations = [], activeGenerationId = None, generationIdCounter = 0,
      backgroundStatuses = initialBackgroundStatuses,
      aiModelStatuses = initialAiModelStatuses,
      isScenePromptLoading = False,
      isAiModelPromptLoading = initialAiModelPromptLoading\<rparr>"

subsection \<open>JavaScript array primitives\<close>

text \<open>
  \<open>xs.slice(0, e)\<close>: a negative end counts from the end of the array, and the end is
  clamped to the bounds.
\<close>

definition slice0 :: "'a list \<Rightarrow> int \<Rightarrow> 'a list" where
  "slice0 xs e =
     (let n = int (length xs);
          k = (if e < 0 then max (n + e) 0 else min e n)
      in take (nat k) xs)"

text \<open>\<open>xs[i]\<close> is \<open>undefined\<close> outside the bounds; \<open>None\<close> stands for it.\<close>

definition jsIndex :: "'a list \<Rightarrow> int \<Rightarrow> 'a option" where
  "jsIndex xs i = (if 0 \<le> i \<and> i < int (length xs) then Some (xs ! nat i) else None)"

text \<open>\<open>sessionGenerations.find(g => g.id === i)\<close>.\<close>

definition findGeneration :: "nat \<Rightarrow> SessionGeneration list \<Rightarrow> SessionGeneration option" where
  "findGeneration i gens = find (\<lambda>g. id_of g = i) gens"

section \<open>Feature key resolver\<close>

definition toService :: "BackgroundSubMode \<Rightarrow> ServiceBackgroundSubMode" where
  "toService m = (case m of Color \<Rightarrow> SvcColor | Scene \<Rightarrow> SvcScene)"

text \<open>
  \<open>isTransparent ? 'transparent' : backgroundSubMode\<close>, which the source writes out in
  \<open>getCurrentFeatureKey\<close>, in the error-clearing effect, in \<open>handleFileUpload\<close>, in
  \<open>handleBackgroundGenerate\<close> and in \<open>currentStatus\<close>.
\<close>

definition effectiveSubMode :: "'a Controls_scheme \<Rightarrow> ServiceBackgroundSubMode" where
  "effectiveSubMode c =
     (let isTransparent = (backgroundSubMode c = Color \<and> backgroundColor c = ''transparent'')
      in if isTransparent then SvcTransparent else toService (backgroundSubMode c))"

text \<open>The template literals \<open>`background-${effectiveSubMode}`\<close> and \<open>`ai-model-${modelSource}`\<close>.\<close>

definition backgroundKey :: "ServiceBackgroundSubMode \<Rightarrow> FeatureKey" where
  "backgroundKey e =
     (case e of SvcColor \<Rightarrow> BackgroundColor | SvcScene \<Rightarrow> BackgroundScene
              | SvcTransparent \<Rightarrow> BackgroundTransparent)"

definition aiModelKey :: "ModelSource \<Rightarrow> FeatureKey" where
  "aiModelKey m = (case m of Ai \<Rightarrow> AiModelAi | Custom \<Rightarrow> AiModelCustom)"

definition getCurrentFeatureKey :: "'a Controls_scheme \<Rightarrow> FeatureKey" where
  "getCurrentFeatureKey c =
     (if mode c = Background then backgroundKey (effectiveSubMode c)
      else aiModelKey (modelSource c))"

text \<open>
  \<open>currentFeatureKeyRef\<close> is a ref cell that an effect sets to \<open>getCurrentFeatureKey\<close>
  after every render in which the key changed. A completion callback runs as a task of
  its own, after the effects of the last render, so what it reads from the cell is the
  key of the current state.
\<close>

definition currentFeatureKeyRef :: "AppState \<Rightarrow> FeatureKey" where
  "currentFeatureKeyRef st = getCurrentFeatureKey st"

section \<open>History management\<close>

text \<open>
  \<open>recordNewGeneration\<close> is the closure of the render in which the job was submitted:
  it reads \<open>isMobileHistoryOpen\<close> and \<open>activeTab\<close> as they were then (the two
  \<open>env\<close> arguments), \<open>window.innerWidth < 1024\<close> at the completion (\<open>isMobile\<close>), the
  ref cell at the completion, and the log and the stacks through functional updates,
  that is, as they are at the completion.
\<close>

definition recordNewGeneration ::
  "bool \<Rightarrow> AppTab \<Rightarrow> bool \<Rightarrow> string \<Rightarrow> nat \<Rightarrow> FeatureKey \<Rightarrow> AppState \<Rightarrow> AppState" where
  "recordNewGeneration isMobile envActiveTab envIsMobileHistoryOpen imageUrl generationId fKey st =
     (let s1 = st\<lparr>sessionGenerations :=
                  map (\<lambda>gen. if id_of gen = generationId
                              then gen\<lparr>src := Some imageUrl, status := Done\<rparr> else gen)
                      (sessionGenerations st)\<rparr>;
          generationMatchesCurrentMode = (fKey = currentFeatureKeyRef st);
          s2 = (if generationMatchesCurrentMode
                then s1\<lparr>activeGenerationId := Some generationId\<rparr> else s1);
          s3 = (if (isMobile \<and> \<not> envIsMobileHistoryOpen) \<or> (\<not> isMobile \<and> envActiveTab \<noteq> History)
                then s2\<lparr>newHistoryNotification := True\<rparr> else s2);
          currentStack = generationStacks s3 fKey;
          newImages = slice0 (images currentStack) (currentIndex currentStack + 1) @ [imageUrl]
      in s3\<lparr>generationStacks := (generationStacks s3)
                (fKey := \<lparr>images = newImages, currentIndex = int (length newImages) - 1\<rparr>)\<rparr>)"

definition handleUndo :: "AppState \<Rightarrow> AppState" where
  "handleUndo st =
     (let fKey = getCurrentFeatureKey st;
          stack = generationStacks st fKey;
          s1 = (if currentIndex stack \<ge> 0
                then st\<lparr>generationStacks := (generationStacks st)
                          (fKey := stack\<lparr>currentIndex := currentIndex stack - 1\<rparr>)\<rparr>
                else st)
      in s1\<lparr>activeGenerationId := None\<rparr>)"

definition handleRedo :: "AppState \<Rightarrow> AppState" where
  "handleRedo st =
     (let fKey = getCurrentFeatureKey st;
          stack = generationStacks st fKey;
          s1 = (if currentIndex stack < int (length (images stack)) - 1
                then st\<lparr>generationStacks := (generationStacks st)
                          (fKey := stack\<lparr>currentIndex := currentIndex stack + 1\<rparr>)\<rparr>
                else st)
      in s1\<lparr>activeGenerationId := None\<rparr>)"

definition handleStartOver :: "AppState \<Rightarrow> AppState" where
  "handleStartOver st =
     st\<lparr>mode := Background, backgroundSubMode := Color, activeTab := Settings,
        isMobileHistoryOpen := False,
        productImage := initialProductImage, modelImage := initialModelImage,
        generationStacks := initialGenerationStacks,
        backgroundStatuses := initialBackgroundStatuses,
        aiModelStatuses := initialAiModelStatuses,
        isScenePromptLoading := False,
        isAiModelPromptLoading := initialAiModelPromptLoading,
        backgroundColor := ''#f0f0f0'', scenePrompt := [], aspectRatio := ''1:1'',
        promptEnhancer := True, aiGeneratedPromptEnhancer := True,
        yourModelPromptEnhancer := True, aiGeneratedPrompt := [], yourModelPrompt := [],
        gender := Any, modelSource := Ai, promptBuilder := initialPromptBuilder,
        uploadKey := uploadKey st + 1,
        sessionGenerations := [], activeGenerationId := None,
        newHistoryNotification := False\<rparr>"

definition currentStack :: "AppState \<Rightarrow> GenerationStack" where
  "currentStack st = generationStacks st (getCurrentFeatureKey st)"

definition canUndo :: "AppState \<Rightarrow> bool" where
  "canUndo st = (currentIndex (currentStack st) \<ge> 0)"

definition canRedo :: "AppState \<Rightarrow> bool" where
  "canRedo st = (currentIndex (currentStack st) < int (length (images (currentStack st))) - 1)"

section \<open>Display resolver\<close>

text \<open>
  \<open>canvasDisplayUrl\<close>. Both \<open>null\<close> and the \<open>undefined\<close> of an out-of-range read are
  \<open>None\<close>: the canvas shows the source product image for either.
\<close>

definition canvasDisplayUrl :: "AppState \<Rightarrow> string option" where
  "canvasDisplayUrl st =
     (case activeGenerationId st of
        Some i \<Rightarrow> (case findGeneration i (sessionGenerations st) of
                     None \<Rightarrow> None | Some g \<Rightarrow> src g)
      | None \<Rightarrow>
          (let stack = generationStacks st (getCurrentFeatureKey st)
           in if currentIndex stack \<ge> 0 then jsIndex (images stack) (currentIndex stack)
              else None))"

section \<open>Context-aware display handlers and direct setters\<close>

definition handleSetMode :: "Mode \<Rightarrow> AppState \<Rightarrow> AppState" where
  "handleSetMode newMode st =
     (if mode st \<noteq> newMode then st\<lparr>mode := newMode, activeGenerationId := None\<rparr> else st)"

definition handleSetBackgroundSubMode :: "BackgroundSubMode \<Rightarrow> AppState \<Rightarrow> AppState" where
  "handleSetBackgroundSubMode newSubMode st =
     (if backgroundSubMode st \<noteq> newSubMode
      then st\<lparr>backgroundSubMode := newSubMode, activeGenerationId := None\<rparr> else st)"

definition handleSetModelSource :: "ModelSource \<Rightarrow> AppState \<Rightarrow> AppState" where
  "handleSetModelSource newSource st =
     (if modelSource st \<noteq> newSource
      then st\<lparr>modelSource := newSource, activeGenerationId := None\<rparr> else st)"

text \<open>
  The settings panel receives \<open>setBackgroundColor\<close> itself: the colour input, the
  swatches and the transparent button call it, and nothing else is updated with it.
\<close>

definition setBackgroundColor :: "string \<Rightarrow> AppState \<Rightarrow> AppState" where
  "setBackgroundColor c st = st\<lparr>backgroundColor := c\<rparr>"

definition setScenePrompt :: "string \<Rightarrow> AppState \<Rightarrow> AppState" where
  "setScenePrompt p st = st\<lparr>scenePrompt := p\<rparr>"

definition setAspectRatio :: "string \<Rightarrow> AppState \<Rightarrow> AppState" where
  "setAspectRatio r st = st\<lparr>aspectRatio := r\<rparr>"

definition setAiGeneratedPrompt :: "string \<Rightarrow> AppState \<Rightarrow> AppState" where
  "setAiGeneratedPrompt p st = st\<lparr>aiGeneratedPrompt := p\<rparr>"

definition setYourModelPrompt :: "string \<Rightarrow> AppState \<Rightarrow> AppState" where
  "setYourModelPrompt p st = st\<lparr>yourModelPrompt := p\<rparr>"

definition setGender :: "Gender \<Rightarrow> AppState \<Rightarrow> AppState" where
  "setGender g st = st\<lparr>gender := g\<rparr>"

definition setPromptBuilder :: "PromptBuilderSettings \<Rightarrow> AppState \<Rightarrow> AppState" where
  "setPromptBuilder b st = st\<lparr>promptBuilder := b\<rparr>"

definition handleEnhancerChange :: "AppState \<Rightarrow> AppState" where
  "handleEnhancerChange st =
     (if mode st = AiModel
      then (if modelSource st = Ai
            then st\<lparr>aiGeneratedPromptEnhancer := \<not> aiGeneratedPromptEnhancer st\<rparr>
            else st\<lparr>yourModelPromptEnhancer := \<not> yourModelPromptEnhancer st\<rparr>)
      else st\<lparr>promptEnhancer := \<not> promptEnhancer st\<rparr>)"

text \<open>The two tab buttons of the desktop header and the drawer buttons of the mobile layout.\<close>

definition openSettingsTab :: "AppState \<Rightarrow> AppState" where
  "openSettingsTab st = st\<lparr>activeTab := Settings\<rparr>"

definition openHistoryTab :: "AppState \<Rightarrow> AppState" where
  "openHistoryTab st = st\<lparr>activeTab := History, newHistoryNotification := False\<rparr>"

definition openMobileHistory :: "AppState \<Rightarrow> AppState" where
  "openMobileHistory st = st\<lparr>isMobileHistoryOpen := True, newHistoryNotification := False\<rparr>"

definition closeMobileHistory :: "AppState \<Rightarrow> AppState" where
  "closeMobileHistory st = st\<lparr>isMobileHistoryOpen := False\<rparr>"

section \<open>Event handlers\<close>

definition handleDeleteFromHistory :: "nat \<Rightarrow> AppState \<Rightarrow> AppState" where
  "handleDeleteFromHistory idToDelete st =
     (let s1 = st\<lparr>sessionGenerations :=
                  filter (\<lambda>gen. id_of gen \<noteq> idToDelete) (sessionGenerations st)\<rparr>
      in if activeGenerationId st = Some idToDelete
         then s1\<lparr>activeGenerationId := None\<rparr> else s1)"

text \<open>
  \<open>handleFileUpload\<close>, at the \<open>img.onload\<close> of a file that was read and decoded:
  \<open>dataUrl\<close> is the reader's result, \<open>w\<close> and \<open>h\<close> the natural size of the image.
\<close>

definition handleFileUpload ::
  "string \<Rightarrow> string \<Rightarrow> int \<Rightarrow> int \<Rightarrow> ImageType \<Rightarrow> AppState \<Rightarrow> AppState" where
  "handleFileUpload fileName dataUrl w h imageType st =
     (let s1 = (if mode st = Background
                then st\<lparr>backgroundStatuses := (backgroundStatuses st)
                          (effectiveSubMode st :=
                             (backgroundStatuses st (effectiveSubMode st))\<lparr>error := None\<rparr>)\<rparr>
                else st);
          s2 = (if mode st = AiModel
                then s1\<lparr>aiModelStatuses := (aiModelStatuses s1)
                          (modelSource st := (aiModelStatuses s1 (modelSource st))\<lparr>error := None\<rparr>)\<rparr>
                else s1);
          imageData = \<lparr>url = Some dataUrl, file_ref = Some fileName,
                       originalWidth = w, originalHeight = h\<rparr>
      in if imageType = Product
         then s2\<lparr>productImage := imageData, sessionGenerations := [],
                 activeGenerationId := None, generationStacks := initialGenerationStacks\<rparr>
         else s2\<lparr>modelImage := imageData\<rparr>)"

subsection \<open>Generation jobs\<close>

text \<open>The object literal that both generate handlers build from the current cells.\<close>

definition captureSnapshot :: "AppState \<Rightarrow> GenerationStateSnapshot" where
  "captureSnapshot st =
     \<lparr>mode = mode st, backgroundSubMode = backgroundSubMode st, modelSource = modelSource st,
      backgroundColor = backgroundColor st, scenePrompt = scenePrompt st,
      aspectRatio = aspectRatio st, promptEnhancer = promptEnhancer st,
      aiGeneratedPrompt = aiGeneratedPrompt st, yourModelPrompt = yourModelPrompt st,
      gender = gender st, promptBuilder = promptBuilder st,
      aiGeneratedPromptEnhancer = aiGeneratedPromptEnhancer st,
      yourModelPromptEnhancer = yourModelPromptEnhancer st,
      productImageUrl = url (productImage st), modelImageUrl = url (modelImage st)\<rparr>"

text \<open>
  What the continuations of a submitted job keep from the render of the submission:
  the id, the feature key, the status slot, and the two cells that
  \<open>recordNewGeneration\<close> reads from its closure.
\<close>

record BackgroundJob =
  bgNewId :: nat
  bgFeatureKey :: FeatureKey
  bgEffectiveSubMode :: ServiceBackgroundSubMode
  bgActiveTab :: AppTab
  bgIsMobileHistoryOpen :: bool

record AiModelJob =
  aiNewId :: nat
  aiFeatureKey :: FeatureKey
  invokedModelSource :: ModelSource
  aiModelImageUrl :: "string option"
  aiActiveTab :: AppTab
  aiIsMobileHistoryOpen :: bool

text \<open>A thrown value: an \<open>Error\<close> with its message, or anything else.\<close>

datatype Thrown = ErrorObject string | OtherValue

definition errorMsg :: "Thrown \<Rightarrow> string" where
  "errorMsg err = (case err of ErrorObject m \<Rightarrow> m | OtherValue \<Rightarrow> ''An unknown error occurred.'')"

text \<open>\<open>handleBackgroundGenerate\<close> up to its first \<open>await\<close>.\<close>

definition handleBackgroundGenerate :: "AppState \<Rightarrow> AppState \<times> BackgroundJob option" where
  "handleBackgroundGenerate st =
     (if \<not> truthy (url (productImage st)) then (st, None)
      else
        (let eff = effectiveSubMode st;
             fKey = backgroundKey eff
         in if truthyStep (isLoading (backgroundStatuses st eff)) then (st, None)
            else
              (let snap = captureSnapshot st;
                   newId = generationIdCounter st;
                   s1 = st\<lparr>generationIdCounter := newId + 1\<rparr>;
                   s2 = s1\<lparr>sessionGenerations :=
                           \<lparr>id_of = newId, src = None, status = Loading,
                            featureKey = fKey, snapshot = snap\<rparr> # sessionGenerations s1\<rparr>;
                   s3 = s2\<lparr>activeGenerationId := Some newId\<rparr>;
                   s4 = s3\<lparr>backgroundStatuses := (backgroundStatuses s3)
                           (eff := \<lparr>isLoading = Generating, error = None\<rparr>)\<rparr>
               in (s4, Some \<lparr>bgNewId = newId, bgFeatureKey = fKey, bgEffectiveSubMode = eff,
                             bgActiveTab = activeTab st,
                             bgIsMobileHistoryOpen = isMobileHistoryOpen st\<rparr>))))"

text \<open>The \<open>finally\<close> block of \<open>handleBackgroundGenerate\<close>.\<close>

definition backgroundFinally :: "BackgroundJob \<Rightarrow> AppState \<Rightarrow> AppState" where
  "backgroundFinally job st =
     st\<lparr>backgroundStatuses := (backgroundStatuses st)
          (bgEffectiveSubMode job :=
             (backgroundStatuses st (bgEffectiveSubMode job))\<lparr>isLoading := NotLoading\<rparr>)\<rparr>"

text \<open>
  The \<open>try\<close> block ran to its end: the external calls returned \<open>finalImage\<close>.
\<close>

definition backgroundGenerateSucceeded ::
  "bool \<Rightarrow> BackgroundJob \<Rightarrow> string \<Rightarrow> AppState \<Rightarrow> AppState" where
  "backgroundGenerateSucceeded isMobile job finalImage st =
     backgroundFinally job
       (recordNewGeneration isMobile (bgActiveTab job) (bgIsMobileHistoryOpen job)
          finalImage (bgNewId job) (bgFeatureKey job) st)"

text \<open>An external call threw \<open>err\<close>: the \<open>catch\<close> block, then the \<open>finally\<close> block.\<close>

definition backgroundGenerateFailed :: "BackgroundJob \<Rightarrow> Thrown \<Rightarrow> AppState \<Rightarrow> AppState" where
  "backgroundGenerateFailed job err st =
     (let s1 = st\<lparr>backgroundStatuses := (backgroundStatuses st)
                  (bgEffectiveSubMode job := \<lparr>isLoading = NotLoading, error = Some (errorMsg err)\<rparr>)\<rparr>;
          s2 = s1\<lparr>sessionGenerations :=
                  filter (\<lambda>gen. id_of gen \<noteq> bgNewId job) (sessionGenerations s1)\<rparr>
      in backgroundFinally job s2)"

text \<open>\<open>handleAiModelGenerate\<close> up to its first \<open>await\<close>.\<close>

definition handleAiModelGenerate :: "AppState \<Rightarrow> AppState \<times> AiModelJob option" where
  "handleAiModelGenerate st =
     (let invoked = modelSource st;
          fKey = aiModelKey invoked
      in if truthyStep (isLoading (aiModelStatuses st invoked)) then (st, None)
         else
           (let snap = captureSnapshot st;
                newId = generationIdCounter st;
                s1 = st\<lparr>generationIdCounter := newId + 1\<rparr>;
                s2 = s1\<lparr>sessionGenerations :=
                        \<lparr>id_of = newId, src = None, status = Loading,
                         featureKey = fKey, snapshot = snap\<rparr> # sessionGenerations s1\<rparr>;
                s3 = s2\<lparr>activeGenerationId := Some newId\<rparr>;
                s4 = s3\<lparr>aiModelStatuses := (aiModelStatuses s3)
                        (invoked := \<lparr>isLoading = Generating, error = None\<rparr>)\<rparr>
            in (s4, Some \<lparr>aiNewId = newId, aiFeatureKey = fKey, invokedModelSource = invoked,
                          aiModelImageUrl = url (modelImage st),
                          aiActiveTab = activeTab st,
                          aiIsMobileHistoryOpen = isMobileHistoryOpen st\<rparr>)))"

text \<open>
  Between the two \<open>prepareImage\<close> calls of the \<open>try\<close> block: the status text of the
  custom-model path changes once the product image is prepared.
\<close>

definition aiModelBlendingStep :: "AiModelJob \<Rightarrow> AppState \<Rightarrow> AppState" where
  "aiModelBlendingStep job st =
     (if invokedModelSource job = Custom \<and> truthy (aiModelImageUrl job)
      then st\<lparr>aiModelStatuses := (aiModelStatuses st)
                (invokedModelSource job :=
                   (aiModelStatuses st (invokedModelSource job))\<lparr>isLoading := BlendingConcepts\<rparr>)\<rparr>
      else st)"

definition aiModelFinally :: "AiModelJob \<Rightarrow> AppState \<Rightarrow> AppState" where
  "aiModelFinally job st =
     st\<lparr>aiModelStatuses := (aiModelStatuses st)
          (invokedModelSource job :=
             (aiModelStatuses st (invokedModelSource job))\<lparr>isLoading := NotLoading\<rparr>)\<rparr>"

definition aiModelGenerateSucceeded ::
  "bool \<Rightarrow> AiModelJob \<Rightarrow> string \<Rightarrow> AppState \<Rightarrow> AppState" where
  "aiModelGenerateSucceeded isMobile job result st =
     aiModelFinally job
       (recordNewGeneration isMobile (aiActiveTab job) (aiIsMobileHistoryOpen job)
          result (aiNewId job) (aiFeatureKey job) st)"

definition aiModelGenerateFailed :: "AiModelJob \<Rightarrow> Thrown \<Rightarrow> AppState \<Rightarrow> AppState" where
  "aiModelGenerateFailed job err st =
     (let s1 = st\<lparr>aiModelStatuses := (aiModelStatuses st)
                  (invokedModelSource job := \<lparr>isLoading = NotLoading, error = Some (errorMsg err)\<rparr>)\<rparr>;
          s2 = s1\<lparr>sessionGenerations :=
                  filter (\<lambda>gen. id_of gen \<noteq> aiNewId job) (sessionGenerations s1)\<rparr>
      in aiModelFinally job s2)"

datatype Job = BgJob BackgroundJob | AiJob AiModelJob

definition handleGenerateClick :: "AppState \<Rightarrow> AppState \<times> Job option" where
  "handleGenerateClick st =
     (if mode st = Background
      then (case handleBackgroundGenerate st of (s, j) \<Rightarrow> (s, map_option BgJob j))
      else (case handleAiModelGenerate st of (s, j) \<Rightarrow> (s, map_option AiJob j)))"

text \<open>
  \<open>currentStatus\<close> and \<open>canGenerate\<close>. \<open>Mode\<close> has two values, so the final
  \<open>return initialOpStatus\<close> of the first is never reached and the final \<open>return false\<close>
  of the second is reached only from the background mode without a product image.
\<close>

definition currentStatus :: "AppState \<Rightarrow> OperationStatus" where
  "currentStatus st =
     (if mode st = Background then backgroundStatuses st (effectiveSubMode st)
      else aiModelStatuses st (modelSource st))"

definition canGenerate :: "AppState \<Rightarrow> bool" where
  "canGenerate st =
     (if truthyStep (isLoading (currentStatus st)) then False
      else if mode st = Background \<and> truthy (url (productImage st)) then True
      else if mode st = AiModel
           then (if modelSource st = Ai
                 then truthy (url (productImage st)) \<and> aiGeneratedPrompt st \<noteq> []
                 else truthy (url (productImage st)) \<and> truthy (url (modelImage st))
                      \<and> yourModelPrompt st \<noteq> [])
           else False)"

text \<open>
  The Generate button of both layouts:
  \<open><button onClick={handleGenerateClick} disabled={!canGenerate}>\<close>. A disabled
  button does not call its handler.
\<close>

definition generateButton :: "AppState \<Rightarrow> AppState \<times> Job option" where
  "generateButton st = (if canGenerate st then handleGenerateClick st else (st, None))"

subsection \<open>Prompt suggestion\<close>

text \<open>
  \<open>handlePromptGen\<close> keeps \<open>invokedMode\<close> and \<open>invokedModelSource\<close> from the render of
  the click. Its body is one \<open>try\<close> block, so the \<open>finally\<close> block also runs after each
  of the early \<open>return\<close>s.
\<close>

record PromptJob =
  promptInvokedMode :: Mode
  promptInvokedModelSource :: ModelSource

definition promptErrorMsg :: "Thrown \<Rightarrow> string" where
  "promptErrorMsg err =
     (case err of ErrorObject m \<Rightarrow> m | OtherValue \<Rightarrow> ''Failed to generate prompt.'')"

definition promptFinally :: "PromptJob \<Rightarrow> AppState \<Rightarrow> AppState" where
  "promptFinally job st =
     (let s1 = (if promptInvokedMode job = Background
                then st\<lparr>isScenePromptLoading := False\<rparr> else st)
      in if promptInvokedMode job = AiModel
         then s1\<lparr>isAiModelPromptLoading := (isAiModelPromptLoading s1)
                   (promptInvokedModelSource job := False)\<rparr>
         else s1)"

text \<open>\<open>handlePromptGen\<close> up to its first \<open>await\<close>.\<close>

definition handlePromptGen :: "AppState \<Rightarrow> AppState \<times> PromptJob option" where
  "handlePromptGen st =
     (let job = \<lparr>promptInvokedMode = mode st, promptInvokedModelSource = modelSource st\<rparr>
      in if mode st = Background
         then (if \<not> truthy (url (productImage st)) \<or> isScenePromptLoading st
               then (promptFinally job st, None)
               else
                 (let s1 = st\<lparr>isScenePromptLoading := True\<rparr>;
                      s2 = s1\<lparr>backgroundStatuses := (backgroundStatuses s1)
                              (SvcScene := (backgroundStatuses s1 SvcScene)\<lparr>error := None\<rparr>)\<rparr>
                  in (s2, Some job)))
         else (if isAiModelPromptLoading st (modelSource st) then (promptFinally job st, None)
               else if modelSource st = Ai \<and> \<not> truthy (url (productImage st))
               then (promptFinally job st, None)
               else if modelSource st = Custom
                       \<and> (\<not> truthy (url (productImage st)) \<or> \<not> truthy (url (modelImage st)))
               then (promptFinally job st, None)
               else
                 (let s1 = st\<lparr>isAiModelPromptLoading := (isAiModelPromptLoading st)
                              (modelSource st := True)\<rparr>;
                      s2 = s1\<lparr>aiModelStatuses := (aiModelStatuses s1)
                              (modelSource st := (aiModelStatuses s1 (modelSource st))\<lparr>error := None\<rparr>)\<rparr>
                  in (s2, Some job))))"

text \<open>The external calls returned \<open>suggestion\<close>.\<close>

definition promptGenSucceeded :: "PromptJob \<Rightarrow> string \<Rightarrow> AppState \<Rightarrow> AppState" where
  "promptGenSucceeded job suggestion st =
     promptFinally job
       (if promptInvokedMode job = Background then st\<lparr>scenePrompt := suggestion\<rparr>
        else if promptInvokedModelSource job = Ai then st\<lparr>aiGeneratedPrompt := suggestion\<rparr>
        else st\<lparr>yourModelPrompt := suggestion\<rparr>)"

text \<open>
  An external call threw \<open>err\<close>: the \<open>catch\<close> block writes the whole status slot, loading
  step included, then the \<open>finally\<close> block runs.
\<close>

definition promptGenFailed :: "PromptJob \<Rightarrow> Thrown \<Rightarrow> AppState \<Rightarrow> AppState" where
  "promptGenFailed job err st =
     (let s1 = (if promptInvokedMode job = Background
                then st\<lparr>backgroundStatuses := (backgroundStatuses st)
                          (SvcScene := \<lparr>isLoading = NotLoading, error = Some (promptErrorMsg err)\<rparr>)\<rparr>
                else st);
          s2 = (if promptInvokedMode job = AiModel
                then s1\<lparr>aiModelStatuses := (aiModelStatuses s1)
                          (promptInvokedModelSource job :=
                             \<lparr>isLoading = NotLoading, error = Some (promptErrorMsg err)\<rparr>)\<rparr>
                else s1)
      in promptFinally job s2)"

text \<open>
  The two prompt buttons call the same handler. The one of the scene panel is disabled by
  \<open>isScenePromptLoading || !productImage.url || !!backgroundStatuses.scene.isLoading\<close>,
  the one of the AI-model panel by
  \<open>isAiModelPromptLoading[modelSource] || !!aiModelStatuses[modelSource].isLoading\<close> or a
  missing image of the model source.
\<close>

definition promptButtonDisabled :: "AppState \<Rightarrow> bool" where
  "promptButtonDisabled st =
     (if mode st = Background
      then isScenePromptLoading st \<or> \<not> truthy (url (productImage st))
           \<or> truthyStep (isLoading (backgroundStatuses st SvcScene))
      else isAiModelPromptLoading st (modelSource st)
           \<or> truthyStep (isLoading (aiModelStatuses st (modelSource st)))
           \<or> (if modelSource st = Ai then \<not> truthy (url (productImage st))
               else \<not> truthy (url (productImage st)) \<or> \<not> truthy (url (modelImage st))))"

definition promptButton :: "AppState \<Rightarrow> AppState \<times> PromptJob option" where
  "promptButton st = (if promptButtonDisabled st then (st, None) else handlePromptGen st)"

section \<open>Restoring a log record\<close>

text \<open>
  \<open>handleSelectGeneration\<close>. The two \<open>Image\<close> objects load after the handler has
  returned; \<open>decode\<close> gives the natural size of a URL that loads, and \<open>None\<close> for one
  whose \<open>onload\<close> never fires, which leaves the image cell as it was.
\<close>

definition restoreImage ::
  "(string \<Rightarrow> (int \<times> int) option) \<Rightarrow> string option \<Rightarrow> ImageState \<Rightarrow> ImageState \<Rightarrow> ImageState" where
  "restoreImage decode snapUrl initialImage current =
     (if truthy snapUrl
      then (case snapUrl of
              None \<Rightarrow> current
            | Some u \<Rightarrow> (case decode u of
                          None \<Rightarrow> current
                        | Some (w, h) \<Rightarrow> \<lparr>url = Some u, file_ref = None,
                                          originalWidth = w, originalHeight = h\<rparr>))
      else initialImage)"

definition handleSelectGeneration ::
  "bool \<Rightarrow> (string \<Rightarrow> (int \<times> int) option) \<Rightarrow> nat \<Rightarrow> AppState \<Rightarrow> AppState" where
  "handleSelectGeneration isMobile decode i st =
     (case findGeneration i (sessionGenerations st) of
        None \<Rightarrow> st
      | Some generation \<Rightarrow>
          (let snap = snapshot generation;
               s1 = st\<lparr>mode := mode snap, backgroundSubMode := backgroundSubMode snap,
                       modelSource := modelSource snap, backgroundColor := backgroundColor snap,
                       scenePrompt := scenePrompt snap, aspectRatio := aspectRatio snap,
                       promptEnhancer := promptEnhancer snap,
                       aiGeneratedPrompt := aiGeneratedPrompt snap,
                       yourModelPrompt := yourModelPrompt snap,
                       gender := gender snap, promptBuilder := promptBuilder snap,
                       aiGeneratedPromptEnhancer := aiGeneratedPromptEnhancer snap,
                       yourModelPromptEnhancer := yourModelPromptEnhancer snap\<rparr>;
               s2 = s1\<lparr>productImage :=
                         restoreImage decode (productImageUrl snap) initialProductImage
                           (productImage s1)\<rparr>;
               s3 = s2\<lparr>modelImage :=
                         restoreImage decode (modelImageUrl snap) initialModelImage
                           (modelImage s2)\<rparr>;
               s4 = s3\<lparr>activeTab := Settings\<rparr>;
               s5 = s4\<lparr>activeGenerationId := Some i\<rparr>
           in if isMobile then s5\<lparr>isMobileHistoryOpen := False\<rparr> else s5))"

section \<open>Effects\<close>

text \<open>
  The effect on \<open>[mode, backgroundSubMode, modelSource, backgroundColor]\<close> that clears
  the error of the feature now in view.
\<close>

definition clearFeatureErrorEffect :: "AppState \<Rightarrow> AppState" where
  "clearFeatureErrorEffect st =
     (let s1 = (if mode st = Background
                then st\<lparr>backgroundStatuses := (backgroundStatuses st)
                          (effectiveSubMode st :=
                             (backgroundStatuses st (effectiveSubMode st))\<lparr>error := None\<rparr>)\<rparr>
                else st)
      in if mode st = AiModel
         then s1\<lparr>aiModelStatuses := (aiModelStatuses s1)
                   (modelSource st := (aiModelStatuses s1 (modelSource st))\<lparr>error := None\<rparr>)\<rparr>
         else s1)"

text \<open>
  The effect on \<open>[activeTab, activeGenerationId, sessionGenerations, getCurrentFeatureKey]\<close>
  that drops a selection of another feature's record while the settings tab is active.
\<close>

definition deselectEffect :: "AppState \<Rightarrow> AppState" where
  "deselectEffect st =
     (if activeTab st = Settings
      then (case activeGenerationId st of
              None \<Rightarrow> st
            | Some i \<Rightarrow>
                (case findGeneration i (sessionGenerations st) of
                   None \<Rightarrow> st
                 | Some activeGen \<Rightarrow>
                     if featureKey activeGen \<noteq> getCurrentFeatureKey st
                     then st\<lparr>activeGenerationId := None\<rparr> else st))
      else st)"

text \<open>
  The effects of the render that follows a handler. The first runs when one of its
  dependencies differs from the previous render. The second reads nothing but its
  dependencies and does nothing when run twice, so running it after every render is
  running it when they change.
\<close>

definition afterRender :: "AppState \<Rightarrow> AppState \<Rightarrow> AppState" where
  "afterRender old new =
     deselectEffect
       (if mode new \<noteq> mode old \<or> backgroundSubMode new \<noteq> backgroundSubMode old
           \<or> modelSource new \<noteq> modelSource old \<or> backgroundColor new \<noteq> backgroundColor old
        then clearFeatureErrorEffect new else new)"

section \<open>Runs of the engine\<close>

text \<open>
  One event per user action or settled external call. The completion events carry the
  job as the submission returned it.
\<close>

datatype Event =
    SetMode Mode
  | SetBackgroundSubMode BackgroundSubMode
  | SetModelSource ModelSource
  | SetBackgroundColor string
  | SetScenePrompt string
  | SetAspectRatio string
  | SetAiGeneratedPrompt string
  | SetYourModelPrompt string
  | SetGender Gender
  | SetPromptBuilder PromptBuilderSettings
  | EnhancerChange
  | OpenSettingsTab
  | OpenHistoryTab
  | OpenMobileHistory
  | CloseMobileHistory
  | Undo
  | Redo
  | StartOver
  | DeleteFromHistory nat
  | FileUpload string string int int ImageType
  | ClickGenerate
  | ClickPromptGen
  | PromptSucceeded PromptJob string
  | PromptFailed PromptJob Thrown
  | BackgroundSucceeded bool BackgroundJob string
  | BackgroundFailed BackgroundJob Thrown
  | AiModelBlending AiModelJob
  | AiModelSucceeded bool AiModelJob string
  | AiModelFailed AiModelJob Thrown
  | SelectGeneration bool "string \<Rightarrow> (int \<times> int) option" nat

fun handler :: "Event \<Rightarrow> AppState \<Rightarrow> AppState" where
  "handler (SetMode m) st = handleSetMode m st"
| "handler (SetBackgroundSubMode b) st = handleSetBackgroundSubMode b st"
| "handler (SetModelSource m) st = handleSetModelSource m st"
| "handler (SetBackgroundColor c) st = setBackgroundColor c st"
| "handler (SetScenePrompt p) st = setScenePrompt p st"
| "handler (SetAspectRatio r) st = setAspectRatio r st"
| "handler (SetAiGeneratedPrompt p) st = setAiGeneratedPrompt p st"
| "handler (SetYourModelPrompt p) st = setYourModelPrompt p st"
| "handler (SetGender g) st = setGender g st"
| "handler (SetPromptBuilder b) st = setPromptBuilder b st"
| "handler EnhancerChange st = handleEnhancerChange st"
| "handler OpenSettingsTab st = openSettingsTab st"
| "handler OpenHistoryTab st = openHistoryTab st"
| "handler OpenMobileHistory st = openMobileHistory st"
| "handler CloseMobileHistory st = closeMobileHistory st"
| "handler Undo st = handleUndo st"
| "handler Redo st = handleRedo st"
| "handler StartOver st = handleStartOver st"
| "handler (DeleteFromHistory i) st = handleDeleteFromHistory i st"
| "handler (FileUpload n u w h t) st = handleFileUpload n u w h t st"
| "handler ClickGenerate st = fst (generateButton st)"
| "handler ClickPromptGen st = fst (promptButton st)"
| "handler (PromptSucceeded job suggestion) st = promptGenSucceeded job suggestion st"
| "handler (PromptFailed job err) st = promptGenFailed job err st"
| "handler (BackgroundSucceeded isMobile job img) st =
     backgroundGenerateSucceeded isMobile job img st"
| "handler (BackgroundFailed job err) st = backgroundGenerateFailed job err st"
| "handler (AiModelBlending job) st = aiModelBlendingStep job st"
| "handler (AiModelSucceeded isMobile job img) st = aiModelGenerateSucceeded isMobile job img st"
| "handler (AiModelFailed job err) st = aiModelGenerateFailed job err st"
| "handler (SelectGeneration isMobile decode i) st = handleSelectGeneration isMobile decode i st"

definition step :: "Event \<Rightarrow> AppState \<Rightarrow> AppState" where
  "step ev st = afterRender st (handler ev st)"

definition run :: "Event list \<Rightarrow> AppState \<Rightarrow> AppState" where
  "run evs st = fold step evs st"

section \<open>Invariants and scenarios\<close>

text \<open>The invariant of a generation stack, and of the five stacks of a state.\<close>

definition stackInvariant :: "GenerationStack \<Rightarrow> bool" where
  "stackInvariant s = (- 1 \<le> currentIndex s \<and> currentIndex s < int (length (images s)))"

definition stacksInvariant :: "AppState \<Rightarrow> bool" where
  "stacksInvariant st =
     (stackInvariant (generationStacks st BackgroundColor)
      \<and> stackInvariant (generationStacks st BackgroundScene)
      \<and> stackInvariant (generationStacks st BackgroundTransparent)
      \<and> stackInvariant (generationStacks st AiModelAi)
      \<and> stackInvariant (generationStacks st AiModelCustom))"

text \<open>
  Jobs of the background-colour feature as \<open>handleBackgroundGenerate\<close> returns them when
  the settings tab is active and the mobile drawer is closed.
\<close>

definition colorJob :: "nat \<Rightarrow> BackgroundJob" where
  "colorJob n =
     \<lparr>bgNewId = n, bgFeatureKey = BackgroundColor, bgEffectiveSubMode = SvcColor,
      bgActiveTab = Settings, bgIsMobileHistoryOpen = False\<rparr>"

text \<open>
  The scenario of the spec's section 8: a product is uploaded, three generations
  \<open>A\<close>, \<open>B\<close>, \<open>C\<close> of the background-colour feature succeed, and the user undoes twice.
\<close>

definition threeGenerations :: AppState where
  "threeGenerations =
     run [FileUpload ''product.png'' ''data:product'' 640 480 Product,
          ClickGenerate, BackgroundSucceeded False (colorJob 0) ''A'',
          ClickGenerate, BackgroundSucceeded False (colorJob 1) ''B'',
          ClickGenerate, BackgroundSucceeded False (colorJob 2) ''C''] initialState"

definition undoneTwice :: AppState where
  "undoneTwice = run [Undo, Undo] threeGenerations"


text \<open>
  Every record of the log carries the feature key that the resolver derives from the
  record's own snapshot.
\<close>

definition logKeysMatch :: "AppState \<Rightarrow> bool" where
  "logKeysMatch st =
     list_all (\<lambda>g. featureKey g = getCurrentFeatureKey (snapshot g)) (sessionGenerations st)"

text \<open>
  A second background-colour generation is submitted after the first one succeeded, and
  then fails.
\<close>

definition pendingOverHistory :: AppState where
  "pendingOverHistory =
     run [FileUpload ''product.png'' ''data:product'' 640 480 Product,
          ClickGenerate, BackgroundSucceeded False (colorJob 0) ''A'',
          ClickGenerate] initialState"

definition failedOverHistory :: AppState where
  "failedOverHistory =
     step (BackgroundFailed (colorJob 1) (ErrorObject ''blocked by safety policy''))
       pendingOverHistory"

text \<open>
  The scenario of the spec's section 8 for a failure: with a product and a model image
  and a prompt, a generation of the custom-model feature is submitted and reaches its
  blending step.
\<close>

definition customJob :: "nat \<Rightarrow> AiModelJob" where
  "customJob n =
     \<lparr>aiNewId = n, aiFeatureKey = AiModelCustom, invokedModelSource = Custom,
      aiModelImageUrl = Some ''data:model'', aiActiveTab = Settings,
      aiIsMobileHistoryOpen = False\<rparr>"

definition customModelSubmitted :: AppState where
  "customModelSubmitted =
     run [FileUpload ''product.png'' ''data:product'' 640 480 Product,
          SetMode AiModel, SetModelSource Custom,
          FileUpload ''model.png'' ''data:model'' 300 400 Model,
          SetYourModelPrompt ''on a beach'', ClickGenerate, AiModelBlending (customJob 0)]
       initialState"

text \<open>The user switches to the AI-model mode before uploading anything.\<close>

definition aiModeNoProduct :: AppState where
  "aiModeNoProduct = run [SetMode AiModel] initialState"

text \<open>
  A transparent-background generation succeeds; the user then moves to the custom-model
  feature, uploads a model image and opens the history tab.
\<close>

definition transparentJob :: "nat \<Rightarrow> BackgroundJob" where
  "transparentJob n =
     \<lparr>bgNewId = n, bgFeatureKey = BackgroundTransparent, bgEffectiveSubMode = SvcTransparent,
      bgActiveTab = Settings, bgIsMobileHistoryOpen = False\<rparr>"

definition transparentThenCustomModel :: AppState where
  "transparentThenCustomModel =
     run [FileUpload ''product.png'' ''data:product'' 640 480 Product,
          SetBackgroundColor ''transparent'',
          ClickGenerate, BackgroundSucceeded False (transparentJob 0) ''T'',
          SetMode AiModel, SetModelSource Custom,
          FileUpload ''model.png'' ''data:model'' 300 400 Model,
          OpenHistoryTab] initialState"

text \<open>
  A background-colour generation is submitted and, while it is in flight, the user picks
  the transparent swatch, which changes the feature in view to
  \<open>background-transparent\<close>: once with the settings tab active, once with the history
  tab active (the tab buttons belong to the wide layout; the narrow layout shows the
  settings panel and the Generate button whatever the tab).
\<close>

definition submittedOnSettingsTab :: AppState where
  "submittedOnSettingsTab =
     run [FileUpload ''product.png'' ''data:product'' 640 480 Product,
          ClickGenerate, SetBackgroundColor ''transparent''] initialState"

definition historyTabJob :: BackgroundJob where
  "historyTabJob =
     \<lparr>bgNewId = 0, bgFeatureKey = BackgroundColor, bgEffectiveSubMode = SvcColor,
      bgActiveTab = History, bgIsMobileHistoryOpen = False\<rparr>"

definition submittedOnHistoryTab :: AppState where
  "submittedOnHistoryTab =
     run [FileUpload ''product.png'' ''data:product'' 640 480 Product, OpenHistoryTab,
          ClickGenerate, SetBackgroundColor ''transparent''] initialState"

section \<open>Basic facts\<close>

named_theorems engine

declare truthyStep_def [engine] truthy_def [engine] initialProductImage_def [engine]
  initialModelImage_def [engine] initialPromptBuilder_def [engine] initialOpStatus_def [engine]
  initialBackgroundStatuses_def [engine] initialAiModelStatuses_def [engine]
  initialAiModelPromptLoading_def [engine] initialGenerationStack_def [engine]
  initialGenerationStacks_def [engine] initialState_def [engine] slice0_def [engine]
  jsIndex_def [engine] findGeneration_def [engine] toService_def [engine]
  effectiveSubMode_def [engine] backgroundKey_def [engine] aiModelKey_def [engine]
  getCurrentFeatureKey_def [engine] currentFeatureKeyRef_def [engine]
  recordNewGeneration_def [engine] handleUndo_def [engine] handleRedo_def [engine]
  handleStartOver_def [engine] currentStack_def [engine] canUndo_def [engine]
  canRedo_def [engine] canvasDisplayUrl_def [engine] handleSetMode_def [engine]
  handleSetBackgroundSubMode_def [engine] handleSetModelSource_def [engine]
  setBackgroundColor_def [engine] setScenePrompt_def [engine] setAspectRatio_def [engine]
  setAiGeneratedPrompt_def [engine] setYourModelPrompt_def [engine] setGender_def [engine]
  setPromptBuilder_def [engine] handleEnhancerChange_def [engine] openSettingsTab_def [engine]
  openHistoryTab_def [engine] openMobileHistory_def [engine] closeMobileHistory_def [engine]
  handleDeleteFromHistory_def [engine] handleFileUpload_def [engine]
  captureSnapshot_def [engine] errorMsg_def [engine] handleBackgroundGenerate_def [engine]
  backgroundFinally_def [engine] backgroundGenerateSucceeded_def [engine]
  backgroundGenerateFailed_def [engine] handleAiModelGenerate_def [engine]
  aiModelBlendingStep_def [engine] aiModelFinally_def [engine]
  aiModelGenerateSucceeded_def [engine] aiModelGenerateFailed_def [engine]
  handleGenerateClick_def [engine] currentStatus_def [engine] canGenerate_def [engine]
  generateButton_def [engine] restoreImage_def [engine] handleSelectGeneration_def [engine]
  clearFeatureErrorEffect_def [engine] deselectEffect_def [engine] afterRender_def [engine]
  promptErrorMsg_def [engine] promptFinally_def [engine] handlePromptGen_def [engine]
  promptGenSucceeded_def [engine] promptGenFailed_def [engine]
  promptButtonDisabled_def [engine] promptButton_def [engine]
  step_def [engine] run_def [engine] Let_def [engine]

lemma slice0_nonneg: "0 \<le> e \<Longrightarrow> slice0 xs e = take (nat e) xs"
  by (simp add: slice0_def Let_def min_def)

lemma length_slice0: "int (length (slice0 xs e)) \<le> int (length xs)"
  by (simp add: slice0_def Let_def)

lemma recordNewGeneration_stacks:
  "generationStacks (recordNewGeneration m t h img gid K st) =
     (generationStacks st)
       (K := \<lparr>images = slice0 (images (generationStacks st K)) (currentIndex (generationStacks st K) + 1) @ [img],
              currentIndex = int (length (slice0 (images (generationStacks st K)) (currentIndex (generationStacks st K) + 1)))\<rparr>)"
  by (simp add: recordNewGeneration_def Let_def)

lemma stacksInvariant_all: "stacksInvariant st = (\<forall>k. stackInvariant (generationStacks st k))"
proof
  assume a: "stacksInvariant st"
  show "\<forall>k. stackInvariant (generationStacks st k)"
  proof
    fix k show "stackInvariant (generationStacks st k)"
      using a by (cases k) (simp_all add: stacksInvariant_def)
  qed
next
  assume "\<forall>k. stackInvariant (generationStacks st k)"
  then show "stacksInvariant st" by (simp add: stacksInvariant_def)
qed

lemma getCurrentFeatureKey_cong:
  "mode a = mode b \<Longrightarrow> backgroundSubMode a = backgroundSubMode b \<Longrightarrow> modelSource a = modelSource b
   \<Longrightarrow> backgroundColor a = backgroundColor b \<Longrightarrow> getCurrentFeatureKey a = getCurrentFeatureKey b"
  by (simp add: getCurrentFeatureKey_def effectiveSubMode_def)

lemma handleUndo_stacks:
  "generationStacks (handleUndo st) =
     (if currentIndex (currentStack st) \<ge> 0
      then (generationStacks st)(getCurrentFeatureKey st :=
              (currentStack st)\<lparr>currentIndex := currentIndex (currentStack st) - 1\<rparr>)
      else generationStacks st)"
  by (simp add: handleUndo_def currentStack_def Let_def)

lemma handleRedo_stacks:
  "generationStacks (handleRedo st) =
     (if currentIndex (currentStack st) < int (length (images (currentStack st))) - 1
      then (generationStacks st)(getCurrentFeatureKey st :=
              (currentStack st)\<lparr>currentIndex := currentIndex (currentStack st) + 1\<rparr>)
      else generationStacks st)"
  by (simp add: handleRedo_def currentStack_def Let_def)

lemma handleUndo_key: "getCurrentFeatureKey (handleUndo st) = getCurrentFeatureKey st"
  by (rule getCurrentFeatureKey_cong) (simp_all add: handleUndo_def Let_def)

lemma handleRedo_key: "getCurrentFeatureKey (handleRedo st) = getCurrentFeatureKey st"
  by (rule getCurrentFeatureKey_cong) (simp_all add: handleRedo_def Let_def)

lemma stackInvariant_initial: "stackInvariant (initialGenerationStacks k)"
  by (simp add: stackInvariant_def initialGenerationStacks_def initialGenerationStack_def)

lemma stacksInvariant_recordNewGeneration:
  assumes "stacksInvariant st"
  shows "stacksInvariant (recordNewGeneration m t h img gid K st)"
proof -
  have "stackInvariant (generationStacks (recordNewGeneration m t h img gid K st) k)" for k
    using assms by (simp add: stacksInvariant_all recordNewGeneration_stacks stackInvariant_def)
  then show ?thesis by (simp add: stacksInvariant_all)
qed

lemma stacksInvariant_handleUndo:
  assumes "stacksInvariant st"
  shows "stacksInvariant (handleUndo st)"
proof -
  have inv: "stackInvariant (generationStacks st k)" for k
    using assms by (simp add: stacksInvariant_all)
  have "stackInvariant (generationStacks (handleUndo st) k)" for k
    using inv [of k] inv [of "getCurrentFeatureKey st"]
    by (auto simp: handleUndo_stacks stackInvariant_def currentStack_def)
  then show ?thesis by (simp add: stacksInvariant_all)
qed

lemma stacksInvariant_handleRedo:
  assumes "stacksInvariant st"
  shows "stacksInvariant (handleRedo st)"
proof -
  have inv: "stackInvariant (generationStacks st k)" for k
    using assms by (simp add: stacksInvariant_all)
  have "stackInvariant (generationStacks (handleRedo st) k)" for k
    using inv [of k] inv [of "getCurrentFeatureKey st"]
    by (auto simp: handleRedo_stacks stackInvariant_def currentStack_def)
  then show ?thesis by (simp add: stacksInvariant_all)
qed

lemma stacksInvariant_handleStartOver: "stacksInvariant (handleStartOver st)"
  by (simp add: stacksInvariant_all handleStartOver_def stackInvariant_initial)

lemma stacksInvariant_productUpload: "stacksInvariant (handleFileUpload n u w h Product st)"
  by (simp add: stacksInvariant_all handleFileUpload_def Let_def stackInvariant_initial)

lemma stacksInvariant_initialState: "stacksInvariant initialState"
  by (simp add: stacksInvariant_all initialState_def stackInvariant_initial)

lemma stacksInvariant_cong:
  "generationStacks a = generationStacks b \<Longrightarrow> stacksInvariant a = stacksInvariant b"
  by (simp add: stacksInvariant_def)

lemma deselectEffect_stacks: "generationStacks (deselectEffect st) = generationStacks st"
  by (simp add: deselectEffect_def split: option.splits)

lemma clearFeatureErrorEffect_stacks: "generationStacks (clearFeatureErrorEffect st) = generationStacks st"
  by (simp add: clearFeatureErrorEffect_def Let_def)

lemma afterRender_stacks: "generationStacks (afterRender old new) = generationStacks new"
  by (simp add: afterRender_def deselectEffect_stacks clearFeatureErrorEffect_stacks)

lemma backgroundFinally_stacks: "generationStacks (backgroundFinally job st) = generationStacks st"
  by (simp add: backgroundFinally_def)

lemma aiModelFinally_stacks: "generationStacks (aiModelFinally job st) = generationStacks st"
  by (simp add: aiModelFinally_def)

lemma handleBackgroundGenerate_stacks:
  "generationStacks (fst (handleBackgroundGenerate st)) = generationStacks st"
  by (simp add: handleBackgroundGenerate_def Let_def)

lemma handleAiModelGenerate_stacks:
  "generationStacks (fst (handleAiModelGenerate st)) = generationStacks st"
  by (simp add: handleAiModelGenerate_def Let_def)

lemma generateButton_stacks: "generationStacks (fst (generateButton st)) = generationStacks st"
  using handleBackgroundGenerate_stacks [of st] handleAiModelGenerate_stacks [of st]
  by (cases "handleBackgroundGenerate st"; cases "handleAiModelGenerate st")
     (simp add: generateButton_def handleGenerateClick_def)

lemma backgroundGenerateFailed_stacks:
  "generationStacks (backgroundGenerateFailed job err st) = generationStacks st"
  by (simp add: backgroundGenerateFailed_def Let_def backgroundFinally_stacks)

lemma aiModelGenerateFailed_stacks:
  "generationStacks (aiModelGenerateFailed job err st) = generationStacks st"
  by (simp add: aiModelGenerateFailed_def Let_def aiModelFinally_stacks)

lemma handleSelectGeneration_stacks:
  "generationStacks (handleSelectGeneration m d i st) = generationStacks st"
  by (simp add: handleSelectGeneration_def Let_def split: option.splits)

lemma handleFileUpload_model_stacks:
  "generationStacks (handleFileUpload n u w h Model st) = generationStacks st"
  by (simp add: handleFileUpload_def Let_def)

lemma handleDeleteFromHistory_stacks:
  "generationStacks (handleDeleteFromHistory i st) = generationStacks st"
  by (simp add: handleDeleteFromHistory_def Let_def)

lemma promptFinally_frame:
  "generationStacks (promptFinally job st) = generationStacks st"
  "sessionGenerations (promptFinally job st) = sessionGenerations st"
  by (simp_all add: promptFinally_def Let_def)

lemma promptButton_frame:
  "generationStacks (fst (promptButton st)) = generationStacks st"
  "sessionGenerations (fst (promptButton st)) = sessionGenerations st"
  by (simp_all add: promptButton_def handlePromptGen_def promptFinally_frame Let_def)

lemma promptGenSucceeded_frame:
  "generationStacks (promptGenSucceeded job p st) = generationStacks st"
  "sessionGenerations (promptGenSucceeded job p st) = sessionGenerations st"
  by (simp_all add: promptGenSucceeded_def promptFinally_frame)

lemma promptGenFailed_frame:
  "generationStacks (promptGenFailed job err st) = generationStacks st"
  "sessionGenerations (promptGenFailed job err st) = sessionGenerations st"
  by (simp_all add: promptGenFailed_def promptFinally_frame Let_def)

lemma stacksInvariant_handler:
  assumes "stacksInvariant st"
  shows "stacksInvariant (handler ev st)"
proof (cases ev)
  case (FileUpload n u w h t)
  then show ?thesis
    using assms stacksInvariant_productUpload
      stacksInvariant_cong [OF handleFileUpload_model_stacks]
    by (cases t) simp_all
next
  case (BackgroundSucceeded m job img)
  then show ?thesis
    using assms
    by (simp add: backgroundGenerateSucceeded_def stacksInvariant_recordNewGeneration
          stacksInvariant_cong [OF backgroundFinally_stacks])
next
  case (AiModelSucceeded m job img)
  then show ?thesis
    using assms
    by (simp add: aiModelGenerateSucceeded_def stacksInvariant_recordNewGeneration
          stacksInvariant_cong [OF aiModelFinally_stacks])
next
  case ClickGenerate
  then show ?thesis using assms by (simp add: stacksInvariant_cong [OF generateButton_stacks])
next
  case (BackgroundFailed job err)
  then show ?thesis using assms by (simp add: stacksInvariant_cong [OF backgroundGenerateFailed_stacks])
next
  case (AiModelFailed job err)
  then show ?thesis using assms by (simp add: stacksInvariant_cong [OF aiModelGenerateFailed_stacks])
next
  case (SelectGeneration m d i)
  then show ?thesis using assms by (simp add: stacksInvariant_cong [OF handleSelectGeneration_stacks])
next
  case (DeleteFromHistory i)
  then show ?thesis using assms by (simp add: stacksInvariant_cong [OF handleDeleteFromHistory_stacks])
next
  case ClickPromptGen
  then show ?thesis using assms by (simp add: stacksInvariant_cong [OF promptButton_frame(1)])
next
  case (PromptSucceeded job p)
  then show ?thesis using assms by (simp add: stacksInvariant_cong [OF promptGenSucceeded_frame(1)])
next
  case (PromptFailed job err)
  then show ?thesis using assms by (simp add: stacksInvariant_cong [OF promptGenFailed_frame(1)])
next
  case Undo
  then show ?thesis using assms by (simp add: stacksInvariant_handleUndo)
next
  case Redo
  then show ?thesis using assms by (simp add: stacksInvariant_handleRedo)
next
  case StartOver
  then show ?thesis by (simp add: stacksInvariant_handleStartOver)
qed (use assms in \<open>simp_all add: stacksInvariant_def handleSetMode_def
      handleSetBackgroundSubMode_def handleSetModelSource_def setBackgroundColor_def
      setScenePrompt_def setAspectRatio_def setAiGeneratedPrompt_def setYourModelPrompt_def
      setGender_def setPromptBuilder_def handleEnhancerChange_def openSettingsTab_def
      openHistoryTab_def openMobileHistory_def closeMobileHistory_def aiModelBlendingStep_def\<close>)

lemma stacksInvariant_step: "stacksInvariant st \<Longrightarrow> stacksInvariant (step ev st)"
  by (simp add: step_def stacksInvariant_cong [OF afterRender_stacks] stacksInvariant_handler)

lemma run_snoc: "run (evs @ [ev]) st = step ev (run evs st)"
  by (simp add: run_def)

lemma stacksInvariant_run: "stacksInvariant st \<Longrightarrow> stacksInvariant (run evs st)"
  by (induction evs rule: rev_induct) (simp_all add: run_snoc stacksInvariant_step, simp add: run_def)

lemma generationStacks_threeGenerations:
  "generationStacks threeGenerations BackgroundColor = \<lparr>images = [''A'', ''B'', ''C''], currentIndex = 2\<rparr>"
  by (simp add: threeGenerations_def colorJob_def engine)

lemma key_threeGenerations: "getCurrentFeatureKey threeGenerations = BackgroundColor"
  by (simp add: threeGenerations_def colorJob_def engine)

lemma generationStacks_undoneTwice:
  "generationStacks undoneTwice BackgroundColor = \<lparr>images = [''A'', ''B'', ''C''], currentIndex = 0\<rparr>"
  by (simp add: undoneTwice_def threeGenerations_def colorJob_def engine)

lemma key_undoneTwice: "getCurrentFeatureKey undoneTwice = BackgroundColor"
  by (simp add: undoneTwice_def threeGenerations_def colorJob_def engine)

lemma key_initialState: "getCurrentFeatureKey initialState = BackgroundColor"
  by (simp add: engine)

lemma deselectEffect_idem: "deselectEffect (deselectEffect st) = deselectEffect st"
  by (simp add: deselectEffect_def getCurrentFeatureKey_def effectiveSubMode_def
        split: option.splits)

lemma deselectEffect_run: "deselectEffect (run evs initialState) = run evs initialState"
proof (cases evs rule: rev_cases)
  case Nil
  then show ?thesis by (simp add: run_def deselectEffect_def initialState_def)
next
  case (snoc evs' ev)
  then show ?thesis by (simp add: run_snoc step_def afterRender_def deselectEffect_idem)
qed

section \<open>Generation stacks\<close>

text \<open>
  Claim C3. Recording a successful generation on a stack whose cursor is at least \<open>-1\<close>
  keeps the first \<open>currentIndex + 1\<close> images, appends the new image and moves the cursor
  to the new last position. The instance below is the spec's scenario: the stack
  \<open>[A, B, C]\<close> with the cursor undone to \<open>0\<close> becomes \<open>[A, D]\<close> with cursor \<open>1\<close>.
\<close>

theorem recordNewGeneration_truncates_appends:
  assumes "- 1 \<le> currentIndex (generationStacks st K)"
  shows "images (generationStacks (recordNewGeneration m t h img gid K st) K)
           = take (nat (currentIndex (generationStacks st K) + 1)) (images (generationStacks st K)) @ [img]
         \<and> currentIndex (generationStacks (recordNewGeneration m t h img gid K st) K)
           = int (length (images (generationStacks (recordNewGeneration m t h img gid K st) K))) - 1"
  using assms by (simp add: recordNewGeneration_stacks slice0_nonneg)

theorem recordNewGeneration_truncates_appends_witness:
  "generationStacks undoneTwice BackgroundColor = \<lparr>images = [''A'', ''B'', ''C''], currentIndex = 0\<rparr>
   \<and> - 1 \<le> currentIndex (generationStacks undoneTwice BackgroundColor)
   \<and> images (generationStacks
        (recordNewGeneration False Settings False ''D'' 3 BackgroundColor undoneTwice) BackgroundColor)
       = [''A'', ''D'']
   \<and> currentIndex (generationStacks
        (recordNewGeneration False Settings False ''D'' 3 BackgroundColor undoneTwice) BackgroundColor)
       = 1"
proof -
  have h: "- 1 \<le> currentIndex (generationStacks undoneTwice BackgroundColor)"
    by (simp add: generationStacks_undoneTwice)
  show ?thesis
    using h recordNewGeneration_truncates_appends [OF h, of False Settings False "''D''" 3]
    by (simp add: generationStacks_undoneTwice)
qed

text \<open>
  Claim C7. In every state, \<open>canUndo\<close> is \<open>currentIndex \<ge> 0\<close> and \<open>canRedo\<close> is
  \<open>currentIndex < images.length - 1\<close> of the stack in view; undo and redo move the cursor
  by one when they are enabled, leave all the stacks as they are when they are not, and
  never change the images of any stack.
\<close>

theorem undo_redo_cursor:
  "(canUndo st \<longleftrightarrow> currentIndex (currentStack st) \<ge> 0)
   \<and> (canRedo st \<longleftrightarrow> currentIndex (currentStack st) < int (length (images (currentStack st))) - 1)
   \<and> (canUndo st \<longrightarrow> currentIndex (currentStack (handleUndo st)) = currentIndex (currentStack st) - 1)
   \<and> (canRedo st \<longrightarrow> currentIndex (currentStack (handleRedo st)) = currentIndex (currentStack st) + 1)
   \<and> (\<not> canUndo st \<longrightarrow> generationStacks (handleUndo st) = generationStacks st)
   \<and> (\<not> canRedo st \<longrightarrow> generationStacks (handleRedo st) = generationStacks st)
   \<and> images (generationStacks (handleUndo st) k) = images (generationStacks st k)
   \<and> images (generationStacks (handleRedo st) k) = images (generationStacks st k)"
  by (simp add: canUndo_def canRedo_def handleUndo_stacks handleRedo_stacks
        currentStack_def handleUndo_key handleRedo_key)

theorem undo_redo_cursor_witness:
  "canUndo undoneTwice \<and> canRedo undoneTwice
   \<and> currentIndex (currentStack undoneTwice) = 0
   \<and> currentIndex (currentStack (handleUndo undoneTwice)) = - 1
   \<and> currentIndex (currentStack (handleRedo undoneTwice)) = 1
   \<and> \<not> canUndo initialState \<and> \<not> canRedo initialState
   \<and> generationStacks (handleUndo initialState) = generationStacks initialState
   \<and> generationStacks (handleRedo initialState) = generationStacks initialState"
proof -
  have a: "currentStack undoneTwice = \<lparr>images = [''A'', ''B'', ''C''], currentIndex = 0\<rparr>"
    by (simp add: currentStack_def key_undoneTwice generationStacks_undoneTwice)
  have b: "currentStack initialState = \<lparr>images = [], currentIndex = - 1\<rparr>"
    by (simp add: currentStack_def key_initialState)
       (simp add: initialState_def initialGenerationStacks_def initialGenerationStack_def)
  show ?thesis
    using undo_redo_cursor [of undoneTwice] undo_redo_cursor [of initialState] a b
    by simp
qed

text \<open>
  Claim C8. The invariant \<open>-1 \<le> currentIndex < images.length\<close> holds of all five stacks
  in the initial state, after start over and after a product upload, and is kept by
  recording a success, by undo and redo, and by every step of the engine; so it holds
  after every run from the initial state.
\<close>

theorem stack_invariant_maintained:
  "stacksInvariant initialState
   \<and> stacksInvariant (handleStartOver st)
   \<and> stacksInvariant (handleFileUpload n u w h Product st)
   \<and> (stacksInvariant st \<longrightarrow>
        stacksInvariant (recordNewGeneration m t ho img gid K st)
        \<and> stacksInvariant (handleUndo st)
        \<and> stacksInvariant (handleRedo st)
        \<and> stacksInvariant (step ev st))
   \<and> stacksInvariant (run evs initialState)"
  by (simp add: stacksInvariant_initialState stacksInvariant_handleStartOver
        stacksInvariant_productUpload stacksInvariant_recordNewGeneration
        stacksInvariant_handleUndo stacksInvariant_handleRedo stacksInvariant_step
        stacksInvariant_run)

theorem stack_invariant_maintained_witness:
  "stacksInvariant undoneTwice
   \<and> stacksInvariant (recordNewGeneration False Settings False ''D'' 3 BackgroundColor undoneTwice)
   \<and> stacksInvariant (handleUndo undoneTwice)
   \<and> stacksInvariant (handleRedo undoneTwice)
   \<and> stacksInvariant (step StartOver undoneTwice)"
proof -
  have "stacksInvariant (run [FileUpload ''product.png'' ''data:product'' 640 480 Product,
          ClickGenerate, BackgroundSucceeded False (colorJob 0) ''A'',
          ClickGenerate, BackgroundSucceeded False (colorJob 1) ''B'',
          ClickGenerate, BackgroundSucceeded False (colorJob 2) ''C'', Undo, Undo] initialState)"
    using stack_invariant_maintained by blast
  then have h: "stacksInvariant undoneTwice"
    by (simp add: undoneTwice_def threeGenerations_def run_def)
  show ?thesis
    using h stack_invariant_maintained [of undoneTwice _ _ _ _ False Settings False "''D''" 3 BackgroundColor StartOver]
    by simp
qed

text \<open>
  Claim C6. Uploading a product image leaves every stack at \<open>{images: [], currentIndex: -1}\<close>,
  the log empty and the selection cleared, whatever the state was; uploading a model
  image changes neither the stacks nor the log.
\<close>

theorem product_upload_resets_history:
  "generationStacks (handleFileUpload n u w h Product st) k = \<lparr>images = [], currentIndex = - 1\<rparr>
   \<and> sessionGenerations (handleFileUpload n u w h Product st) = []
   \<and> activeGenerationId (handleFileUpload n u w h Product st) = None
   \<and> generationStacks (handleFileUpload n u w h Model st) = generationStacks st
   \<and> sessionGenerations (handleFileUpload n u w h Model st) = sessionGenerations st"
  by (simp add: handleFileUpload_def Let_def initialGenerationStacks_def initialGenerationStack_def)

section \<open>Failure of a generation\<close>

lemma findGeneration_filter_self:
  "findGeneration i (filter (\<lambda>gen. id_of gen \<noteq> i) gens) = None"
  by (simp add: findGeneration_def find_None_iff)

lemma id_notin_filter_self: "i \<notin> id_of ` set (filter (\<lambda>gen. id_of gen \<noteq> i) gens)"
  by auto

text \<open>
  Claim C5. When the external call of a job fails, the failure continuation of either
  handler removes every record with the job's id from the log (no record with that id
  remains), sets the job's status slot to \<open>{isLoading: '', error: errorMsg}\<close>, where
  \<open>errorMsg\<close> is the message of the thrown \<open>Error\<close> (and \<open>'An unknown error occurred.'\<close>
  for a thrown value that is no \<open>Error\<close>), and leaves all generation stacks as they are.
  The slot is the one of the job's feature: a job returned by a submission carries the
  feature key of its slot, and its record sits in the log under the job's id.
\<close>

theorem generation_failure_effects:
  "sessionGenerations (backgroundGenerateFailed job err st)
     = filter (\<lambda>gen. id_of gen \<noteq> bgNewId job) (sessionGenerations st)
   \<and> findGeneration (bgNewId job) (sessionGenerations (backgroundGenerateFailed job err st)) = None
   \<and> bgNewId job \<notin> id_of ` set (sessionGenerations (backgroundGenerateFailed job err st))
   \<and> backgroundStatuses (backgroundGenerateFailed job err st) (bgEffectiveSubMode job)
       = \<lparr>isLoading = NotLoading, error = Some (errorMsg err)\<rparr>
   \<and> backgroundStatuses (backgroundGenerateFailed job (ErrorObject msg) st) (bgEffectiveSubMode job)
       = \<lparr>isLoading = NotLoading, error = Some msg\<rparr>
   \<and> backgroundStatuses (backgroundGenerateFailed job OtherValue st) (bgEffectiveSubMode job)
       = \<lparr>isLoading = NotLoading, error = Some ''An unknown error occurred.''\<rparr>
   \<and> generationStacks (backgroundGenerateFailed job err st) = generationStacks st
   \<and> sessionGenerations (aiModelGenerateFailed ajob err st)
     = filter (\<lambda>gen. id_of gen \<noteq> aiNewId ajob) (sessionGenerations st)
   \<and> findGeneration (aiNewId ajob) (sessionGenerations (aiModelGenerateFailed ajob err st)) = None
   \<and> aiNewId ajob \<notin> id_of ` set (sessionGenerations (aiModelGenerateFailed ajob err st))
   \<and> aiModelStatuses (aiModelGenerateFailed ajob err st) (invokedModelSource ajob)
       = \<lparr>isLoading = NotLoading, error = Some (errorMsg err)\<rparr>
   \<and> aiModelStatuses (aiModelGenerateFailed ajob (ErrorObject msg) st) (invokedModelSource ajob)
       = \<lparr>isLoading = NotLoading, error = Some msg\<rparr>
   \<and> aiModelStatuses (aiModelGenerateFailed ajob OtherValue st) (invokedModelSource ajob)
       = \<lparr>isLoading = NotLoading, error = Some ''An unknown error occurred.''\<rparr>
   \<and> generationStacks (aiModelGenerateFailed ajob err st) = generationStacks st
   \<and> (handleBackgroundGenerate st = (st1, Some job) \<longrightarrow>
        bgFeatureKey job = backgroundKey (bgEffectiveSubMode job)
        \<and> findGeneration (bgNewId job) (sessionGenerations st1)
            = Some \<lparr>id_of = bgNewId job, src = None, status = Loading,
                    featureKey = bgFeatureKey job, snapshot = captureSnapshot st\<rparr>)
   \<and> (handleAiModelGenerate st = (st2, Some ajob) \<longrightarrow>
        aiFeatureKey ajob = aiModelKey (invokedModelSource ajob)
        \<and> findGeneration (aiNewId ajob) (sessionGenerations st2)
            = Some \<lparr>id_of = aiNewId ajob, src = None, status = Loading,
                    featureKey = aiFeatureKey ajob, snapshot = captureSnapshot st\<rparr>)"
proof -
  have bg: "sessionGenerations (backgroundGenerateFailed job err st)
     = filter (\<lambda>gen. id_of gen \<noteq> bgNewId job) (sessionGenerations st)"
    by (simp add: backgroundGenerateFailed_def backgroundFinally_def Let_def)
  have ai: "sessionGenerations (aiModelGenerateFailed ajob err st)
     = filter (\<lambda>gen. id_of gen \<noteq> aiNewId ajob) (sessionGenerations st)"
    by (simp add: aiModelGenerateFailed_def aiModelFinally_def Let_def)
  have bgs: "backgroundStatuses (backgroundGenerateFailed job e st) (bgEffectiveSubMode job)
       = \<lparr>isLoading = NotLoading, error = Some (errorMsg e)\<rparr>" for e
    by (simp add: backgroundGenerateFailed_def backgroundFinally_def Let_def)
  have ais: "aiModelStatuses (aiModelGenerateFailed ajob e st) (invokedModelSource ajob)
       = \<lparr>isLoading = NotLoading, error = Some (errorMsg e)\<rparr>" for e
    by (simp add: aiModelGenerateFailed_def aiModelFinally_def Let_def)
  have msg: "errorMsg (ErrorObject msg) = msg"
            "errorMsg OtherValue = ''An unknown error occurred.''"
    by (simp_all add: errorMsg_def)
  have sub1: "handleBackgroundGenerate st = (st1, Some job) \<longrightarrow>
        bgFeatureKey job = backgroundKey (bgEffectiveSubMode job)
        \<and> findGeneration (bgNewId job) (sessionGenerations st1)
            = Some \<lparr>id_of = bgNewId job, src = None, status = Loading,
                    featureKey = bgFeatureKey job, snapshot = captureSnapshot st\<rparr>"
    by (auto simp: handleBackgroundGenerate_def Let_def findGeneration_def split: if_splits)
  have sub2: "handleAiModelGenerate st = (st2, Some ajob) \<longrightarrow>
        aiFeatureKey ajob = aiModelKey (invokedModelSource ajob)
        \<and> findGeneration (aiNewId ajob) (sessionGenerations st2)
            = Some \<lparr>id_of = aiNewId ajob, src = None, status = Loading,
                    featureKey = aiFeatureKey ajob, snapshot = captureSnapshot st\<rparr>"
    by (auto simp: handleAiModelGenerate_def Let_def findGeneration_def split: if_splits)
  show ?thesis
    using sub1 sub2
    by (simp only: bg ai bgs ais msg findGeneration_filter_self backgroundGenerateFailed_stacks
          aiModelGenerateFailed_stacks id_notin_filter_self not_False_eq_True simp_thms)
qed

lemma customModelSubmitted_facts:
  "activeGenerationId customModelSubmitted = Some 0"
  "map id_of (sessionGenerations customModelSubmitted) = [0]"
  "aiModelStatuses customModelSubmitted Custom = \<lparr>isLoading = BlendingConcepts, error = None\<rparr>"
  "generationStacks customModelSubmitted AiModelCustom = \<lparr>images = [], currentIndex = - 1\<rparr>"
  by (simp_all add: customModelSubmitted_def customJob_def engine)

theorem generation_failure_effects_witness:
  "handleBackgroundGenerate threeGenerations
     = (fst (handleBackgroundGenerate threeGenerations), Some (colorJob 3))
   \<and> bgFeatureKey (colorJob 3) = backgroundKey (bgEffectiveSubMode (colorJob 3))
   \<and> findGeneration 3 (sessionGenerations (fst (handleBackgroundGenerate threeGenerations)))
       = Some \<lparr>id_of = 3, src = None, status = Loading, featureKey = BackgroundColor,
               snapshot = captureSnapshot threeGenerations\<rparr>
   \<and> findGeneration 3 (sessionGenerations
        (backgroundGenerateFailed (colorJob 3) (ErrorObject ''blocked by safety policy'')
           (fst (handleBackgroundGenerate threeGenerations)))) = None
   \<and> backgroundStatuses
        (backgroundGenerateFailed (colorJob 3) (ErrorObject ''blocked by safety policy'')
           (fst (handleBackgroundGenerate threeGenerations))) SvcColor
       = \<lparr>isLoading = NotLoading, error = Some ''blocked by safety policy''\<rparr>
   \<and> generationStacks
        (backgroundGenerateFailed (colorJob 3) (ErrorObject ''blocked by safety policy'')
           (fst (handleBackgroundGenerate threeGenerations))) BackgroundColor
       = \<lparr>images = [''A'', ''B'', ''C''], currentIndex = 2\<rparr>
   \<and> map id_of (sessionGenerations customModelSubmitted) = [0]
   \<and> sessionGenerations
        (aiModelGenerateFailed (customJob 0) (ErrorObject ''blocked by safety policy'')
           customModelSubmitted) = []
   \<and> aiModelStatuses
        (aiModelGenerateFailed (customJob 0) (ErrorObject ''blocked by safety policy'')
           customModelSubmitted) Custom
       = \<lparr>isLoading = NotLoading, error = Some ''blocked by safety policy''\<rparr>
   \<and> aiModelStatuses (aiModelGenerateFailed (customJob 0) OtherValue customModelSubmitted) Custom
       = \<lparr>isLoading = NotLoading, error = Some ''An unknown error occurred.''\<rparr>
   \<and> generationStacks
        (aiModelGenerateFailed (customJob 0) (ErrorObject ''blocked by safety policy'')
           customModelSubmitted) AiModelCustom
       = \<lparr>images = [], currentIndex = - 1\<rparr>"
proof -
  let ?e = "ErrorObject ''blocked by safety policy''"
  let ?s1 = "fst (handleBackgroundGenerate threeGenerations)"
  have h: "handleBackgroundGenerate threeGenerations = (?s1, Some (colorJob 3))"
    by (simp add: threeGenerations_def colorJob_def engine)
  have n: "bgNewId (colorJob 3) = 3" "bgFeatureKey (colorJob 3) = BackgroundColor"
    "bgEffectiveSubMode (colorJob 3) = SvcColor"
    "aiNewId (customJob 0) = 0" "invokedModelSource (customJob 0) = Custom"
    by (simp_all add: colorJob_def customJob_def)
  have a: "bgFeatureKey (colorJob 3) = backgroundKey (bgEffectiveSubMode (colorJob 3))
           \<and> findGeneration (bgNewId (colorJob 3)) (sessionGenerations ?s1)
             = Some \<lparr>id_of = bgNewId (colorJob 3), src = None, status = Loading,
                     featureKey = bgFeatureKey (colorJob 3),
                     snapshot = captureSnapshot threeGenerations\<rparr>"
    using h generation_failure_effects [where job = "colorJob 3" and st = threeGenerations
        and ?st1.0 = ?s1]
    by blast
  note t = generation_failure_effects [where job = "colorJob 3" and err = ?e and st = ?s1
        and msg = "''blocked by safety policy''"]
  have b: "findGeneration (bgNewId (colorJob 3))
             (sessionGenerations (backgroundGenerateFailed (colorJob 3) ?e ?s1)) = None"
    using t by blast
  have c: "backgroundStatuses (backgroundGenerateFailed (colorJob 3) ?e ?s1)
             (bgEffectiveSubMode (colorJob 3))
           = \<lparr>isLoading = NotLoading, error = Some ''blocked by safety policy''\<rparr>"
    using t by blast
  have d: "generationStacks (backgroundGenerateFailed (colorJob 3) ?e ?s1) = generationStacks ?s1"
    using t by blast
  have d': "generationStacks ?s1 BackgroundColor = \<lparr>images = [''A'', ''B'', ''C''], currentIndex = 2\<rparr>"
    by (simp add: handleBackgroundGenerate_stacks generationStacks_threeGenerations)
  note u = generation_failure_effects [where ajob = "customJob 0" and err = ?e
        and st = customModelSubmitted and msg = "''blocked by safety policy''"]
  have e: "sessionGenerations (aiModelGenerateFailed (customJob 0) ?e customModelSubmitted)
           = filter (\<lambda>gen. id_of gen \<noteq> aiNewId (customJob 0)) (sessionGenerations customModelSubmitted)"
    using u by blast
  have e': "filter (\<lambda>gen. id_of gen \<noteq> 0) (sessionGenerations customModelSubmitted) = []"
    using customModelSubmitted_facts(2) by (cases "sessionGenerations customModelSubmitted") auto
  have f: "aiModelStatuses (aiModelGenerateFailed (customJob 0) ?e customModelSubmitted)
             (invokedModelSource (customJob 0))
           = \<lparr>isLoading = NotLoading, error = Some ''blocked by safety policy''\<rparr>"
    using u by blast
  have g: "aiModelStatuses (aiModelGenerateFailed (customJob 0) OtherValue customModelSubmitted)
             (invokedModelSource (customJob 0))
           = \<lparr>isLoading = NotLoading, error = Some ''An unknown error occurred.''\<rparr>"
    using u by blast
  have i: "generationStacks (aiModelGenerateFailed (customJob 0) ?e customModelSubmitted)
           = generationStacks customModelSubmitted"
    using u by blast
  show ?thesis
    using h a b c d d' e e' f g i customModelSubmitted_facts(2,4)
    by (simp only: n simp_thms)
qed

lemma pendingOverHistory_facts:
  "activeGenerationId pendingOverHistory = Some 1"
  "findGeneration 1 (sessionGenerations pendingOverHistory)
     = Some \<lparr>id_of = 1, src = None, status = Loading, featureKey = BackgroundColor,
             snapshot = captureSnapshot pendingOverHistory\<rparr>"
  "currentStack pendingOverHistory = \<lparr>images = [''A''], currentIndex = 0\<rparr>"
  "getCurrentFeatureKey pendingOverHistory = BackgroundColor"
  "backgroundStatuses pendingOverHistory SvcColor = \<lparr>isLoading = Generating, error = None\<rparr>"
  by (simp_all add: pendingOverHistory_def colorJob_def engine)

lemma failedOverHistory_facts:
  "activeGenerationId failedOverHistory = Some 1"
  "findGeneration 1 (sessionGenerations failedOverHistory) = None"
  "currentStack failedOverHistory = \<lparr>images = [''A''], currentIndex = 0\<rparr>"
  "canvasDisplayUrl failedOverHistory = None"
  "map id_of (sessionGenerations failedOverHistory) = [0]"
  "backgroundStatuses failedOverHistory SvcColor = \<lparr>isLoading = NotLoading, error = Some ''blocked by safety policy''\<rparr>"
  by (simp_all add: failedOverHistory_def pendingOverHistory_def colorJob_def engine)

text \<open>
  Claim C10. The failure continuation does not touch \<open>activeGenerationId\<close>. When the
  selection is the failed job's own record, it still is after the failure and the
  effects that follow; the record is gone from the log, so \<open>canvasDisplayUrl\<close> is
  \<open>null\<close>, whatever the stack of the feature in view holds.
\<close>

theorem failure_keeps_selection:
  "activeGenerationId (backgroundGenerateFailed job err st) = activeGenerationId st
   \<and> activeGenerationId (aiModelGenerateFailed ajob err st) = activeGenerationId st
   \<and> (activeGenerationId st = Some (bgNewId job) \<longrightarrow>
        activeGenerationId (step (BackgroundFailed job err) st) = Some (bgNewId job)
        \<and> findGeneration (bgNewId job) (sessionGenerations (step (BackgroundFailed job err) st)) = None
        \<and> canvasDisplayUrl (step (BackgroundFailed job err) st) = None)
   \<and> (activeGenerationId st = Some (aiNewId ajob) \<longrightarrow>
        activeGenerationId (step (AiModelFailed ajob err) st) = Some (aiNewId ajob)
        \<and> findGeneration (aiNewId ajob) (sessionGenerations (step (AiModelFailed ajob err) st)) = None
        \<and> canvasDisplayUrl (step (AiModelFailed ajob err) st) = None)"
proof -
  have bg: "step (BackgroundFailed job err) st = backgroundGenerateFailed job err st"
    if "activeGenerationId st = Some (bgNewId job)"
    using that
    by (simp add: step_def afterRender_def deselectEffect_def backgroundGenerateFailed_def
          backgroundFinally_def Let_def findGeneration_filter_self)
  have ai: "step (AiModelFailed ajob err) st = aiModelGenerateFailed ajob err st"
    if "activeGenerationId st = Some (aiNewId ajob)"
    using that
    by (simp add: step_def afterRender_def deselectEffect_def aiModelGenerateFailed_def
          aiModelFinally_def Let_def findGeneration_filter_self)
  have bga: "activeGenerationId (backgroundGenerateFailed job err st) = activeGenerationId st"
    by (simp add: backgroundGenerateFailed_def backgroundFinally_def Let_def)
  have aia: "activeGenerationId (aiModelGenerateFailed ajob err st) = activeGenerationId st"
    by (simp add: aiModelGenerateFailed_def aiModelFinally_def Let_def)
  have bgl: "sessionGenerations (backgroundGenerateFailed job err st)
     = filter (\<lambda>gen. id_of gen \<noteq> bgNewId job) (sessionGenerations st)"
    by (simp add: backgroundGenerateFailed_def backgroundFinally_def Let_def)
  have ail: "sessionGenerations (aiModelGenerateFailed ajob err st)
     = filter (\<lambda>gen. id_of gen \<noteq> aiNewId ajob) (sessionGenerations st)"
    by (simp add: aiModelGenerateFailed_def aiModelFinally_def Let_def)
  show ?thesis
    by (simp add: bg ai bga aia bgl ail canvasDisplayUrl_def findGeneration_filter_self)
qed

theorem failure_keeps_selection_witness:
  "activeGenerationId pendingOverHistory = Some (bgNewId (colorJob 1))
   \<and> activeGenerationId failedOverHistory = Some 1
   \<and> findGeneration 1 (sessionGenerations failedOverHistory) = None
   \<and> canvasDisplayUrl failedOverHistory = None
   \<and> jsIndex (images (currentStack failedOverHistory)) (currentIndex (currentStack failedOverHistory))
       = Some ''A''"
proof -
  have h: "activeGenerationId pendingOverHistory = Some (bgNewId (colorJob 1))"
    by (simp add: pendingOverHistory_facts colorJob_def)
  have n: "bgNewId (colorJob 1) = 1" by (simp add: colorJob_def)
  have c: "activeGenerationId failedOverHistory = Some (bgNewId (colorJob 1))
           \<and> findGeneration (bgNewId (colorJob 1)) (sessionGenerations failedOverHistory) = None
           \<and> canvasDisplayUrl failedOverHistory = None"
    unfolding failedOverHistory_def
    using h failure_keeps_selection [of "colorJob 1" "ErrorObject ''blocked by safety policy''"
        pendingOverHistory]
    by blast
  have s: "jsIndex (images (currentStack failedOverHistory))
             (currentIndex (currentStack failedOverHistory)) = Some ''A''"
    by (simp add: failedOverHistory_facts(3) jsIndex_def)
  show ?thesis using h c s by (simp only: n simp_thms)
qed

section \<open>Resolution order of the canvas image\<close>







section \<open>Refusal of a generation request\<close>

lemma aiModeNoProduct_facts:
  "mode aiModeNoProduct = AiModel"
  "url (productImage aiModeNoProduct) = None"
  "aiGeneratedPrompt aiModeNoProduct = []"
  "isLoading (aiModelStatuses aiModeNoProduct Ai) = NotLoading"
  "sessionGenerations aiModeNoProduct = []"
  "modelSource aiModeNoProduct = Ai"
  "generationIdCounter aiModeNoProduct = 0"
  by (simp_all add: aiModeNoProduct_def engine)

text \<open>
  Claim C4. A generation request is made through the Generate button, which is disabled
  unless \<open>canGenerate\<close>. \<open>canGenerate\<close> is false exactly when a precondition is unmet: the
  loading step of the feature in view is non-empty, the product image is missing, or,
  in the AI-model mode, the prompt of the model source (and, for the custom source, the
  model image) is missing. In each of these states the request changes nothing: the
  state after it, and after the effects of the following render along a run, is the
  state before it, so no status changes, no record is created and no error is set.
  Of the two handlers behind the button, \<open>handleBackgroundGenerate\<close> itself returns
  without a change when the product image is missing or its feature is loading, and
  \<open>handleAiModelGenerate\<close> itself when its feature is loading.
\<close>

theorem generate_refusal:
  "(\<not> truthy (url (productImage st))
      \<or> truthyStep (isLoading (backgroundStatuses st (effectiveSubMode st)))
     \<longrightarrow> handleBackgroundGenerate st = (st, None))
   \<and> (truthyStep (isLoading (aiModelStatuses st (modelSource st)))
     \<longrightarrow> handleAiModelGenerate st = (st, None))
   \<and> (canGenerate st \<longleftrightarrow>
        \<not> (truthyStep (isLoading (currentStatus st))
           \<or> \<not> truthy (url (productImage st))
           \<or> (mode st = AiModel \<and> modelSource st = Ai \<and> aiGeneratedPrompt st = [])
           \<or> (mode st = AiModel \<and> modelSource st = Custom
               \<and> (\<not> truthy (url (modelImage st)) \<or> yourModelPrompt st = []))))
   \<and> (truthyStep (isLoading (currentStatus st))
       \<or> \<not> truthy (url (productImage st))
       \<or> (mode st = AiModel \<and> modelSource st = Ai \<and> aiGeneratedPrompt st = [])
       \<or> (mode st = AiModel \<and> modelSource st = Custom
           \<and> (\<not> truthy (url (modelImage st)) \<or> yourModelPrompt st = []))
     \<longrightarrow> generateButton st = (st, None) \<and> handler ClickGenerate st = st)
   \<and> (\<not> canGenerate (run evs initialState)
     \<longrightarrow> step ClickGenerate (run evs initialState) = run evs initialState)"
proof -
  have bg: "\<not> truthy (url (productImage st))
      \<or> truthyStep (isLoading (backgroundStatuses st (effectiveSubMode st)))
     \<longrightarrow> handleBackgroundGenerate st = (st, None)"
    by (simp add: handleBackgroundGenerate_def Let_def)
  have ai: "truthyStep (isLoading (aiModelStatuses st (modelSource st)))
     \<longrightarrow> handleAiModelGenerate st = (st, None)"
    by (simp add: handleAiModelGenerate_def Let_def)
  have cg: "canGenerate st \<longleftrightarrow>
        \<not> (truthyStep (isLoading (currentStatus st))
           \<or> \<not> truthy (url (productImage st))
           \<or> (mode st = AiModel \<and> modelSource st = Ai \<and> aiGeneratedPrompt st = [])
           \<or> (mode st = AiModel \<and> modelSource st = Custom
               \<and> (\<not> truthy (url (modelImage st)) \<or> yourModelPrompt st = [])))"
    by (cases "mode st"; cases "modelSource st") (auto simp: canGenerate_def)
  have rn: "\<not> canGenerate (run evs initialState)
     \<longrightarrow> step ClickGenerate (run evs initialState) = run evs initialState"
    by (simp add: step_def generateButton_def afterRender_def deselectEffect_run)
  show ?thesis
    using bg ai cg rn by (auto simp: generateButton_def)
qed

lemma aiModeSubmitted_facts:
  "isLoading (aiModelStatuses (fst (handleAiModelGenerate aiModeNoProduct))
      (modelSource (fst (handleAiModelGenerate aiModeNoProduct)))) = Generating"
  by (simp add: aiModeNoProduct_def engine)

theorem generate_refusal_witness:
  "\<not> truthy (url (productImage initialState))
   \<and> handleBackgroundGenerate initialState = (initialState, None)
   \<and> generateButton initialState = (initialState, None)
   \<and> truthyStep (isLoading (backgroundStatuses pendingOverHistory (effectiveSubMode pendingOverHistory)))
   \<and> handleBackgroundGenerate pendingOverHistory = (pendingOverHistory, None)
   \<and> generateButton pendingOverHistory = (pendingOverHistory, None)
   \<and> mode aiModeNoProduct = AiModel \<and> modelSource aiModeNoProduct = Ai
   \<and> aiGeneratedPrompt aiModeNoProduct = []
   \<and> \<not> canGenerate aiModeNoProduct
   \<and> generateButton aiModeNoProduct = (aiModeNoProduct, None)
   \<and> step ClickGenerate aiModeNoProduct = aiModeNoProduct
   \<and> handleAiModelGenerate (fst (handleAiModelGenerate aiModeNoProduct))
       = (fst (handleAiModelGenerate aiModeNoProduct), None)"
proof -
  have a: "\<not> truthy (url (productImage initialState))"
    by (simp add: engine)
  have b: "truthyStep (isLoading (backgroundStatuses pendingOverHistory (effectiveSubMode pendingOverHistory)))"
          "mode pendingOverHistory = Background"
    by (simp_all add: pendingOverHistory_def colorJob_def engine)
  have bs: "truthyStep (isLoading (currentStatus pendingOverHistory))"
    using b by (simp add: currentStatus_def)
  have c: "mode aiModeNoProduct = AiModel \<and> modelSource aiModeNoProduct = Ai
           \<and> aiGeneratedPrompt aiModeNoProduct = []"
    by (simp add: aiModeNoProduct_facts)
  have d: "truthyStep (isLoading (aiModelStatuses (fst (handleAiModelGenerate aiModeNoProduct))
      (modelSource (fst (handleAiModelGenerate aiModeNoProduct)))))"
    by (simp add: aiModeSubmitted_facts truthyStep_def)
  have n: "\<not> canGenerate aiModeNoProduct"
    using c generate_refusal [of aiModeNoProduct] by blast
  have r: "step ClickGenerate aiModeNoProduct = aiModeNoProduct"
    using n generate_refusal [of _ "[SetMode AiModel]"]
    unfolding aiModeNoProduct_def by blast
  show ?thesis
    using a b(1) bs c d n r generate_refusal [of initialState]
      generate_refusal [of pendingOverHistory]
      generate_refusal [of aiModeNoProduct]
      generate_refusal [of "fst (handleAiModelGenerate aiModeNoProduct)"]
    by blast
qed

section \<open>Restoring a record's settings\<close>

lemma key_captureSnapshot: "getCurrentFeatureKey (captureSnapshot st) = getCurrentFeatureKey st"
  by (rule getCurrentFeatureKey_cong) (simp_all add: captureSnapshot_def)

lemma logKeysMatch_cong:
  "sessionGenerations a = sessionGenerations b \<Longrightarrow> logKeysMatch a = logKeysMatch b"
  by (simp add: logKeysMatch_def)

lemma recordNewGeneration_log:
  "sessionGenerations (recordNewGeneration m t ho img gid K st) =
     map (\<lambda>gen. if id_of gen = gid then gen\<lparr>src := Some img, status := Done\<rparr> else gen)
       (sessionGenerations st)"
  by (simp add: recordNewGeneration_def Let_def)

lemma logKeysMatch_recordNewGeneration:
  "logKeysMatch st \<Longrightarrow> logKeysMatch (recordNewGeneration m t ho img gid K st)"
  by (auto simp: logKeysMatch_def recordNewGeneration_log list_all_iff)

lemma handleBackgroundGenerate_log:
  "sessionGenerations (fst (handleBackgroundGenerate st)) = sessionGenerations st
   \<or> sessionGenerations (fst (handleBackgroundGenerate st))
      = \<lparr>id_of = generationIdCounter st, src = None, status = Loading,
         featureKey = backgroundKey (effectiveSubMode st), snapshot = captureSnapshot st\<rparr>
        # sessionGenerations st"
  by (simp add: handleBackgroundGenerate_def Let_def)

lemma handleAiModelGenerate_log:
  "sessionGenerations (fst (handleAiModelGenerate st)) = sessionGenerations st
   \<or> sessionGenerations (fst (handleAiModelGenerate st))
      = \<lparr>id_of = generationIdCounter st, src = None, status = Loading,
         featureKey = aiModelKey (modelSource st), snapshot = captureSnapshot st\<rparr>
        # sessionGenerations st"
  by (simp add: handleAiModelGenerate_def Let_def)

lemma logKeysMatch_generateButton:
  assumes "logKeysMatch st"
  shows "logKeysMatch (fst (generateButton st))"
proof (cases "canGenerate st")
  case False
  then show ?thesis using assms by (simp add: generateButton_def)
next
  case True
  show ?thesis
  proof (cases "mode st = Background")
    case bg: True
    have k: "backgroundKey (effectiveSubMode st) = getCurrentFeatureKey (captureSnapshot st)"
      unfolding key_captureSnapshot using bg by (simp add: getCurrentFeatureKey_def)
    have "fst (generateButton st) = fst (handleBackgroundGenerate st)"
      using True bg
      by (cases "handleBackgroundGenerate st") (simp add: generateButton_def handleGenerateClick_def)
    then show ?thesis
      using assms handleBackgroundGenerate_log [of st] k
      by (auto simp: logKeysMatch_def)
  next
    case ai: False
    have k: "aiModelKey (modelSource st) = getCurrentFeatureKey (captureSnapshot st)"
      unfolding key_captureSnapshot using ai by (simp add: getCurrentFeatureKey_def)
    have "fst (generateButton st) = fst (handleAiModelGenerate st)"
      using True ai
      by (cases "handleAiModelGenerate st") (simp add: generateButton_def handleGenerateClick_def)
    then show ?thesis
      using assms handleAiModelGenerate_log [of st] k
      by (auto simp: logKeysMatch_def)
  qed
qed

lemma logKeysMatch_handler:
  assumes "logKeysMatch st"
  shows "logKeysMatch (handler ev st)"
proof (cases ev)
  case (FileUpload n u w h t)
  then show ?thesis
    using assms by (cases t) (simp_all add: logKeysMatch_def handleFileUpload_def Let_def)
next
  case ClickGenerate
  then show ?thesis using assms by (simp add: logKeysMatch_generateButton)
next
  case (BackgroundSucceeded m job img)
  then show ?thesis
    using logKeysMatch_recordNewGeneration [OF assms]
    by (simp add: backgroundGenerateSucceeded_def backgroundFinally_def logKeysMatch_def)
next
  case (AiModelSucceeded m job img)
  then show ?thesis
    using logKeysMatch_recordNewGeneration [OF assms]
    by (simp add: aiModelGenerateSucceeded_def aiModelFinally_def logKeysMatch_def)
next
  case (BackgroundFailed job err)
  then show ?thesis
    using assms
    by (simp add: backgroundGenerateFailed_def backgroundFinally_def logKeysMatch_def Let_def
          list_all_iff)
next
  case (AiModelFailed job err)
  then show ?thesis
    using assms
    by (simp add: aiModelGenerateFailed_def aiModelFinally_def logKeysMatch_def Let_def
          list_all_iff)
next
  case (DeleteFromHistory i)
  then show ?thesis
    using assms by (simp add: handleDeleteFromHistory_def logKeysMatch_def Let_def list_all_iff)
next
  case ClickPromptGen
  then show ?thesis using assms by (simp add: logKeysMatch_cong [OF promptButton_frame(2)])
next
  case (PromptSucceeded job p)
  then show ?thesis using assms by (simp add: logKeysMatch_cong [OF promptGenSucceeded_frame(2)])
next
  case (PromptFailed job err)
  then show ?thesis using assms by (simp add: logKeysMatch_cong [OF promptGenFailed_frame(2)])
next
  case (SelectGeneration m d i)
  then show ?thesis
    using assms
    by (simp add: handleSelectGeneration_def logKeysMatch_def Let_def split: option.splits)
next
  case Undo
  then show ?thesis using assms by (simp add: handleUndo_def logKeysMatch_def Let_def)
next
  case Redo
  then show ?thesis using assms by (simp add: handleRedo_def logKeysMatch_def Let_def)
next
  case StartOver
  then show ?thesis by (simp add: handleStartOver_def logKeysMatch_def)
qed (use assms in \<open>simp_all add: logKeysMatch_def handleSetMode_def
      handleSetBackgroundSubMode_def handleSetModelSource_def setBackgroundColor_def
      setScenePrompt_def setAspectRatio_def setAiGeneratedPrompt_def setYourModelPrompt_def
      setGender_def setPromptBuilder_def handleEnhancerChange_def openSettingsTab_def
      openHistoryTab_def openMobileHistory_def closeMobileHistory_def aiModelBlendingStep_def\<close>)

lemma deselectEffect_log: "sessionGenerations (deselectEffect st) = sessionGenerations st"
  by (simp add: deselectEffect_def split: option.splits)

lemma afterRender_log: "sessionGenerations (afterRender old new) = sessionGenerations new"
  by (simp add: afterRender_def deselectEffect_log clearFeatureErrorEffect_def Let_def)

lemma logKeysMatch_step: "logKeysMatch st \<Longrightarrow> logKeysMatch (step ev st)"
  by (simp add: step_def logKeysMatch_cong [OF afterRender_log] logKeysMatch_handler)

lemma logKeysMatch_run: "logKeysMatch (run evs initialState)"
proof (induction evs rule: rev_induct)
  case Nil
  show ?case by (simp add: run_def logKeysMatch_def initialState_def)
next
  case (snoc ev evs)
  then show ?case by (simp add: run_snoc logKeysMatch_step)
qed

lemma findGeneration_in_set: "findGeneration i gens = Some g \<Longrightarrow> g \<in> set gens \<and> id_of g = i"
  by (auto simp: findGeneration_def find_Some_iff)

lemma handleSelectGeneration_found:
  assumes "findGeneration i (sessionGenerations st) = Some g"
  shows "Controls.truncate (handleSelectGeneration m d i st) = Controls.truncate (snapshot g)"
    and "activeGenerationId (handleSelectGeneration m d i st) = Some i"
    and "activeTab (handleSelectGeneration m d i st) = Settings"
    and "sessionGenerations (handleSelectGeneration m d i st) = sessionGenerations st"
  using assms
  by (simp_all add: handleSelectGeneration_def Let_def Controls.truncate_def)

lemma handleSelectGeneration_key:
  assumes "findGeneration i (sessionGenerations st) = Some g"
  shows "getCurrentFeatureKey (handleSelectGeneration m d i st) = getCurrentFeatureKey (snapshot g)"
  using assms
  by (intro getCurrentFeatureKey_cong) (simp_all add: handleSelectGeneration_def Let_def)

lemma clearFeatureErrorEffect_frame:
  "getCurrentFeatureKey (clearFeatureErrorEffect st) = getCurrentFeatureKey st"
  "activeGenerationId (clearFeatureErrorEffect st) = activeGenerationId st"
  "activeTab (clearFeatureErrorEffect st) = activeTab st"
  "sessionGenerations (clearFeatureErrorEffect st) = sessionGenerations st"
  by (simp_all add: clearFeatureErrorEffect_def Let_def getCurrentFeatureKey_def effectiveSubMode_def)

lemma deselectEffect_matching:
  assumes "activeGenerationId st = Some i"
      and "findGeneration i (sessionGenerations st) = Some g"
      and "featureKey g = getCurrentFeatureKey st"
  shows "deselectEffect st = st"
  using assms by (simp add: deselectEffect_def)

lemma canvasDisplayUrl_selected:
  assumes "activeGenerationId st = Some i"
      and "findGeneration i (sessionGenerations st) = Some g"
  shows "canvasDisplayUrl st = src g"
  using assms by (simp add: canvasDisplayUrl_def)

lemma step_select:
  assumes f: "findGeneration i (sessionGenerations st) = Some g"
      and k: "featureKey g = getCurrentFeatureKey (snapshot g)"
  shows "getCurrentFeatureKey (step (SelectGeneration m d i) st) = featureKey g"
    and "activeGenerationId (step (SelectGeneration m d i) st) = Some i"
    and "canvasDisplayUrl (step (SelectGeneration m d i) st) = src g"
proof -
  let ?sel = "handleSelectGeneration m d i st"
  have stable: "deselectEffect x = x \<and> getCurrentFeatureKey x = featureKey g
                \<and> activeGenerationId x = Some i \<and> canvasDisplayUrl x = src g"
    if x: "getCurrentFeatureKey x = getCurrentFeatureKey ?sel"
          "activeGenerationId x = activeGenerationId ?sel"
          "sessionGenerations x = sessionGenerations ?sel" for x
  proof -
    have a: "activeGenerationId x = Some i"
      using x(2) handleSelectGeneration_found(2) [OF f] by simp
    have l: "findGeneration i (sessionGenerations x) = Some g"
      using x(3) handleSelectGeneration_found(4) [OF f] f by simp
    have kk: "featureKey g = getCurrentFeatureKey x"
      using x(1) handleSelectGeneration_key [OF f] k by simp
    show ?thesis
      using deselectEffect_matching [OF a l kk] canvasDisplayUrl_selected [OF a l] a kk by simp
  qed
  have s1: "step (SelectGeneration m d i) st = deselectEffect ?sel
            \<or> step (SelectGeneration m d i) st = deselectEffect (clearFeatureErrorEffect ?sel)"
    by (simp add: step_def afterRender_def)
  have r1: "deselectEffect ?sel = ?sel \<and> getCurrentFeatureKey ?sel = featureKey g
                \<and> activeGenerationId ?sel = Some i \<and> canvasDisplayUrl ?sel = src g"
    using stable [of ?sel] by simp
  have r2: "deselectEffect (clearFeatureErrorEffect ?sel) = clearFeatureErrorEffect ?sel
            \<and> getCurrentFeatureKey (clearFeatureErrorEffect ?sel) = featureKey g
            \<and> activeGenerationId (clearFeatureErrorEffect ?sel) = Some i
            \<and> canvasDisplayUrl (clearFeatureErrorEffect ?sel) = src g"
    using stable [of "clearFeatureErrorEffect ?sel"] by (simp add: clearFeatureErrorEffect_frame)
  show "getCurrentFeatureKey (step (SelectGeneration m d i) st) = featureKey g"
    using s1 r1 r2 by auto
  show "activeGenerationId (step (SelectGeneration m d i) st) = Some i"
    using s1 r1 r2 by auto
  show "canvasDisplayUrl (step (SelectGeneration m d i) st) = src g"
    using s1 r1 r2 by auto
qed

lemma handleSelectGeneration_images:
  assumes "findGeneration i (sessionGenerations st) = Some g"
  shows "productImage (handleSelectGeneration m d i st)
           = restoreImage d (productImageUrl (snapshot g)) initialProductImage (productImage st)"
    and "modelImage (handleSelectGeneration m d i st)
           = restoreImage d (modelImageUrl (snapshot g)) initialModelImage (modelImage st)"
  using assms by (simp_all add: handleSelectGeneration_def Let_def)

lemma restoreImage_cases:
  "\<not> truthy su \<Longrightarrow> restoreImage d su ini cur = ini"
  "su = Some u \<Longrightarrow> u \<noteq> [] \<Longrightarrow> d u = Some (w, h) \<Longrightarrow>
     restoreImage d su ini cur = \<lparr>url = Some u, file_ref = None, originalWidth = w, originalHeight = h\<rparr>"
  "su = Some u \<Longrightarrow> u \<noteq> [] \<Longrightarrow> d u = None \<Longrightarrow> restoreImage d su ini cur = cur"
  by (simp_all add: restoreImage_def truthy_def)

lemma afterRender_images:
  "productImage (afterRender old new) = productImage new"
  "modelImage (afterRender old new) = modelImage new"
  by (simp_all add: afterRender_def deselectEffect_def clearFeatureErrorEffect_def Let_def
        split: option.splits)

text \<open>
  Claim C9. In every state reached by a run from the initial state, selecting a record of
  the log restores all thirteen controls to the values of the record's snapshot, and the
  feature key derived from the restored controls is the record's stored \<open>featureKey\<close>:
  a resubmission targets the feature of the original submission. The two image cells
  follow the snapshot too: a cell whose URL in the snapshot is null (or empty) is reset
  to its initial value; one whose URL loads becomes that URL with the decoded size and
  no file; one whose URL does not load stays as it was. After the effects of the
  following render the record is still selected, the canvas shows its image, and the
  image cells are as the handler left them.
\<close>

theorem select_restores_feature_key:
  assumes "findGeneration i (sessionGenerations (run evs initialState)) = Some g"
  shows "Controls.truncate (handleSelectGeneration m d i (run evs initialState))
           = Controls.truncate (snapshot g)
         \<and> getCurrentFeatureKey (handleSelectGeneration m d i (run evs initialState)) = featureKey g
         \<and> getCurrentFeatureKey (step (SelectGeneration m d i) (run evs initialState)) = featureKey g
         \<and> activeGenerationId (step (SelectGeneration m d i) (run evs initialState)) = Some i
         \<and> canvasDisplayUrl (step (SelectGeneration m d i) (run evs initialState)) = src g
         \<and> (\<not> truthy (productImageUrl (snapshot g)) \<longrightarrow>
              productImage (handleSelectGeneration m d i (run evs initialState)) = initialProductImage)
         \<and> (productImageUrl (snapshot g) = Some u \<and> u \<noteq> [] \<and> d u = Some (w, h) \<longrightarrow>
              productImage (handleSelectGeneration m d i (run evs initialState))
                = \<lparr>url = Some u, file_ref = None, originalWidth = w, originalHeight = h\<rparr>)
         \<and> (productImageUrl (snapshot g) = Some u \<and> u \<noteq> [] \<and> d u = None \<longrightarrow>
              productImage (handleSelectGeneration m d i (run evs initialState))
                = productImage (run evs initialState))
         \<and> (\<not> truthy (modelImageUrl (snapshot g)) \<longrightarrow>
              modelImage (handleSelectGeneration m d i (run evs initialState)) = initialModelImage)
         \<and> (modelImageUrl (snapshot g) = Some v \<and> v \<noteq> [] \<and> d v = Some (w', h') \<longrightarrow>
              modelImage (handleSelectGeneration m d i (run evs initialState))
                = \<lparr>url = Some v, file_ref = None, originalWidth = w', originalHeight = h'\<rparr>)
         \<and> (modelImageUrl (snapshot g) = Some v \<and> v \<noteq> [] \<and> d v = None \<longrightarrow>
              modelImage (handleSelectGeneration m d i (run evs initialState))
                = modelImage (run evs initialState))
         \<and> productImage (step (SelectGeneration m d i) (run evs initialState))
             = productImage (handleSelectGeneration m d i (run evs initialState))
         \<and> modelImage (step (SelectGeneration m d i) (run evs initialState))
             = modelImage (handleSelectGeneration m d i (run evs initialState))"
proof -
  have "g \<in> set (sessionGenerations (run evs initialState))"
    using findGeneration_in_set [OF assms] by simp
  then have k: "featureKey g = getCurrentFeatureKey (snapshot g)"
    using logKeysMatch_run [of evs] by (simp add: logKeysMatch_def list_all_iff)
  have ctl: "Controls.truncate (handleSelectGeneration m d i (run evs initialState))
           = Controls.truncate (snapshot g)
         \<and> getCurrentFeatureKey (handleSelectGeneration m d i (run evs initialState)) = featureKey g
         \<and> getCurrentFeatureKey (step (SelectGeneration m d i) (run evs initialState)) = featureKey g
         \<and> activeGenerationId (step (SelectGeneration m d i) (run evs initialState)) = Some i
         \<and> canvasDisplayUrl (step (SelectGeneration m d i) (run evs initialState)) = src g"
    using handleSelectGeneration_found(1) [OF assms] handleSelectGeneration_key [OF assms]
      step_select [OF assms k] k
    by simp
  have img: "(\<not> truthy (productImageUrl (snapshot g)) \<longrightarrow>
              productImage (handleSelectGeneration m d i (run evs initialState)) = initialProductImage)
         \<and> (productImageUrl (snapshot g) = Some u \<and> u \<noteq> [] \<and> d u = Some (w, h) \<longrightarrow>
              productImage (handleSelectGeneration m d i (run evs initialState))
                = \<lparr>url = Some u, file_ref = None, originalWidth = w, originalHeight = h\<rparr>)
         \<and> (productImageUrl (snapshot g) = Some u \<and> u \<noteq> [] \<and> d u = None \<longrightarrow>
              productImage (handleSelectGeneration m d i (run evs initialState))
                = productImage (run evs initialState))
         \<and> (\<not> truthy (modelImageUrl (snapshot g)) \<longrightarrow>
              modelImage (handleSelectGeneration m d i (run evs initialState)) = initialModelImage)
         \<and> (modelImageUrl (snapshot g) = Some v \<and> v \<noteq> [] \<and> d v = Some (w', h') \<longrightarrow>
              modelImage (handleSelectGeneration m d i (run evs initialState))
                = \<lparr>url = Some v, file_ref = None, originalWidth = w', originalHeight = h'\<rparr>)
         \<and> (modelImageUrl (snapshot g) = Some v \<and> v \<noteq> [] \<and> d v = None \<longrightarrow>
              modelImage (handleSelectGeneration m d i (run evs initialState))
                = modelImage (run evs initialState))"
    by (simp add: handleSelectGeneration_images [OF assms] restoreImage_cases)
  have stp: "productImage (step (SelectGeneration m d i) (run evs initialState))
             = productImage (handleSelectGeneration m d i (run evs initialState))
         \<and> modelImage (step (SelectGeneration m d i) (run evs initialState))
             = modelImage (handleSelectGeneration m d i (run evs initialState))"
    by (simp add: step_def afterRender_images)
  show ?thesis using ctl img stp by (simp only: simp_thms)
qed

lemma transparentThenCustomModel_facts:
  "findGeneration 0 (sessionGenerations transparentThenCustomModel)
     = Some \<lparr>id_of = 0, src = Some ''T'', status = Done, featureKey = BackgroundTransparent,
             snapshot = captureSnapshot (run [FileUpload ''product.png'' ''data:product'' 640 480 Product,
                SetBackgroundColor ''transparent''] initialState)\<rparr>"
  "getCurrentFeatureKey transparentThenCustomModel = AiModelCustom"
  "activeTab transparentThenCustomModel = History"
  "productImage transparentThenCustomModel
     = \<lparr>url = Some ''data:product'', file_ref = Some ''product.png'',
        originalWidth = 640, originalHeight = 480\<rparr>"
  "modelImage transparentThenCustomModel
     = \<lparr>url = Some ''data:model'', file_ref = Some ''model.png'',
        originalWidth = 300, originalHeight = 400\<rparr>"
  by (simp_all add: transparentThenCustomModel_def transparentJob_def engine)

lemma uploadedTransparent_snapshot:
  "productImageUrl (captureSnapshot (run [FileUpload ''product.png'' ''data:product'' 640 480 Product,
                SetBackgroundColor ''transparent''] initialState)) = Some ''data:product''"
  "modelImageUrl (captureSnapshot (run [FileUpload ''product.png'' ''data:product'' 640 480 Product,
                SetBackgroundColor ''transparent''] initialState)) = None"
  by (simp_all add: engine)

theorem select_restores_feature_key_witness:
  "getCurrentFeatureKey transparentThenCustomModel = AiModelCustom
   \<and> map_option status (findGeneration 0 (sessionGenerations transparentThenCustomModel)) = Some Done
   \<and> url (modelImage transparentThenCustomModel) = Some ''data:model''
   \<and> getCurrentFeatureKey
        (handleSelectGeneration False (\<lambda>u. Some (800, 600)) 0 transparentThenCustomModel)
       = BackgroundTransparent
   \<and> canvasDisplayUrl
        (step (SelectGeneration False (\<lambda>u. Some (800, 600)) 0) transparentThenCustomModel)
       = Some ''T''
   \<and> productImage
        (handleSelectGeneration False (\<lambda>u. Some (800, 600)) 0 transparentThenCustomModel)
       = \<lparr>url = Some ''data:product'', file_ref = None, originalWidth = 800, originalHeight = 600\<rparr>
   \<and> modelImage
        (handleSelectGeneration False (\<lambda>u. Some (800, 600)) 0 transparentThenCustomModel)
       = \<lparr>url = None, file_ref = None, originalWidth = 0, originalHeight = 0\<rparr>"
proof -
  let ?snap = "captureSnapshot (run [FileUpload ''product.png'' ''data:product'' 640 480 Product,
                SetBackgroundColor ''transparent''] initialState)"
  let ?g = "\<lparr>id_of = 0, src = Some ''T'', status = Done, featureKey = BackgroundTransparent,
             snapshot = ?snap\<rparr>"
  have h: "findGeneration 0 (sessionGenerations (run
          [FileUpload ''product.png'' ''data:product'' 640 480 Product,
          SetBackgroundColor ''transparent'',
          ClickGenerate, BackgroundSucceeded False (transparentJob 0) ''T'',
          SetMode AiModel, SetModelSource Custom,
          FileUpload ''model.png'' ''data:model'' 300 400 Model,
          OpenHistoryTab] initialState)) = Some ?g"
    using transparentThenCustomModel_facts(1) by (simp only: transparentThenCustomModel_def)
  have p: "productImageUrl (snapshot ?g) = Some ''data:product'' \<and> ''data:product'' \<noteq> []
           \<and> (\<lambda>u. Some (800, 600)) ''data:product'' = Some (800::int, 600::int)"
    by (simp add: uploadedTransparent_snapshot)
  have q: "\<not> truthy (modelImageUrl (snapshot ?g))"
    by (simp add: uploadedTransparent_snapshot truthy_def)
  show ?thesis
    using select_restores_feature_key [OF h, of False "\<lambda>u. Some (800, 600)"
        "''data:product''" 800 600] p q
      transparentThenCustomModel_facts
    by (simp add: transparentThenCustomModel_def initialModelImage_def)
qed

section \<open>Completions for a feature that is no longer in view\<close>

lemma findGeneration_map:
  assumes "\<And>g. id_of (f g) = id_of g"
  shows "findGeneration j (map f gens) = map_option f (findGeneration j gens)"
  using assms by (induction gens) (simp_all add: findGeneration_def)

lemma findGeneration_recordNewGeneration:
  "findGeneration j (sessionGenerations (recordNewGeneration m t ho img gid K st))
     = map_option (\<lambda>gen. if id_of gen = gid then gen\<lparr>src := Some img, status := Done\<rparr> else gen)
         (findGeneration j (sessionGenerations st))"
  by (simp add: recordNewGeneration_log findGeneration_map)

lemma recordNewGeneration_key:
  "getCurrentFeatureKey (recordNewGeneration m t ho img gid K st) = getCurrentFeatureKey st"
  by (rule getCurrentFeatureKey_cong) (simp_all add: recordNewGeneration_def Let_def)

lemma recordNewGeneration_activeTab:
  "activeTab (recordNewGeneration m t ho img gid K st) = activeTab st"
  by (simp add: recordNewGeneration_def Let_def)

lemma recordNewGeneration_selection:
  "activeGenerationId (recordNewGeneration m t ho img gid K st)
     = (if K = getCurrentFeatureKey st then Some gid else activeGenerationId st)"
  by (simp add: recordNewGeneration_def Let_def currentFeatureKeyRef_def)

lemma deselectEffect_fixed_iff:
  "deselectEffect st = st \<longleftrightarrow>
     (\<forall>j g. activeTab st = Settings \<and> activeGenerationId st = Some j
            \<and> findGeneration j (sessionGenerations st) = Some g
            \<longrightarrow> featureKey g = getCurrentFeatureKey st)"
proof -
  have neq: "st\<lparr>activeGenerationId := None\<rparr> \<noteq> st" if "activeGenerationId st = Some j" for j
  proof
    assume "st\<lparr>activeGenerationId := None\<rparr> = st"
    then have "activeGenerationId (st\<lparr>activeGenerationId := None\<rparr>) = activeGenerationId st"
      by simp
    then show False using that by simp
  qed
  show ?thesis
    using neq by (auto simp: deselectEffect_def split: option.splits)
qed

lemma canvas_recordNewGeneration:
  assumes k: "K \<noteq> getCurrentFeatureKey st"
      and s: "activeGenerationId st \<noteq> Some gid
              \<or> findGeneration gid (sessionGenerations st) = None"
  shows "canvasDisplayUrl (recordNewGeneration m t ho img gid K st) = canvasDisplayUrl st"
proof (cases "activeGenerationId st")
  case None
  then show ?thesis
    using k
    by (simp add: canvasDisplayUrl_def recordNewGeneration_selection recordNewGeneration_key
          recordNewGeneration_stacks)
next
  case (Some j)
  show ?thesis
  proof (cases "findGeneration j (sessionGenerations st)")
    case None
    then show ?thesis
      using k Some
      by (simp add: canvasDisplayUrl_def recordNewGeneration_selection
            findGeneration_recordNewGeneration)
  next
    case (Some g)
    have "id_of g = j" using findGeneration_in_set [OF Some] by simp
    moreover have "j \<noteq> gid" using s Some \<open>activeGenerationId st = Some j\<close> by auto
    ultimately show ?thesis
      using k Some \<open>activeGenerationId st = Some j\<close>
      by (simp add: canvasDisplayUrl_def recordNewGeneration_selection
            findGeneration_recordNewGeneration)
  qed
qed

lemma settled_recordNewGeneration:
  assumes k: "K \<noteq> getCurrentFeatureKey st"
      and d: "deselectEffect st = st"
  shows "deselectEffect (recordNewGeneration m t ho img gid K st)
           = recordNewGeneration m t ho img gid K st"
  using d k
  unfolding deselectEffect_fixed_iff
  by (auto simp: recordNewGeneration_selection recordNewGeneration_key
        recordNewGeneration_activeTab findGeneration_recordNewGeneration)

lemma backgroundFinally_frame:
  "canvasDisplayUrl (backgroundFinally job st) = canvasDisplayUrl st"
  "deselectEffect (backgroundFinally job st) = backgroundFinally job (deselectEffect st)"
  "Controls.truncate (backgroundFinally job st) = Controls.truncate st"
  by (simp_all add: backgroundFinally_def canvasDisplayUrl_def deselectEffect_def
        getCurrentFeatureKey_def effectiveSubMode_def Controls.truncate_def split: option.splits)

lemma aiModelFinally_frame:
  "canvasDisplayUrl (aiModelFinally job st) = canvasDisplayUrl st"
  "deselectEffect (aiModelFinally job st) = aiModelFinally job (deselectEffect st)"
  "Controls.truncate (aiModelFinally job st) = Controls.truncate st"
  by (simp_all add: aiModelFinally_def canvasDisplayUrl_def deselectEffect_def
        getCurrentFeatureKey_def effectiveSubMode_def Controls.truncate_def split: option.splits)

lemma afterRender_same_controls:
  assumes "mode new = mode old" "backgroundSubMode new = backgroundSubMode old"
          "modelSource new = modelSource old" "backgroundColor new = backgroundColor old"
  shows "afterRender old new = deselectEffect new"
  using assms by (simp add: afterRender_def)

lemma recordNewGeneration_controls:
  "mode (recordNewGeneration m t ho img gid K st) = mode st"
  "backgroundSubMode (recordNewGeneration m t ho img gid K st) = backgroundSubMode st"
  "modelSource (recordNewGeneration m t ho img gid K st) = modelSource st"
  "backgroundColor (recordNewGeneration m t ho img gid K st) = backgroundColor st"
  by (simp_all add: recordNewGeneration_def Let_def)

lemma backgroundFinally_controls:
  "mode (backgroundFinally job st) = mode st"
  "backgroundSubMode (backgroundFinally job st) = backgroundSubMode st"
  "modelSource (backgroundFinally job st) = modelSource st"
  "backgroundColor (backgroundFinally job st) = backgroundColor st"
  by (simp_all add: backgroundFinally_def)

lemma aiModelFinally_controls:
  "mode (aiModelFinally job st) = mode st"
  "backgroundSubMode (aiModelFinally job st) = backgroundSubMode st"
  "modelSource (aiModelFinally job st) = modelSource st"
  "backgroundColor (aiModelFinally job st) = backgroundColor st"
  by (simp_all add: aiModelFinally_def)

lemma step_BackgroundSucceeded:
  "step (BackgroundSucceeded m job img) st
     = backgroundFinally job (deselectEffect
         (recordNewGeneration m (bgActiveTab job) (bgIsMobileHistoryOpen job) img
            (bgNewId job) (bgFeatureKey job) st))"
proof -
  let ?r = "recordNewGeneration m (bgActiveTab job) (bgIsMobileHistoryOpen job) img
            (bgNewId job) (bgFeatureKey job) st"
  have "step (BackgroundSucceeded m job img) st = afterRender st (backgroundFinally job ?r)"
    by (simp add: step_def backgroundGenerateSucceeded_def)
  also have "\<dots> = deselectEffect (backgroundFinally job ?r)"
    by (rule afterRender_same_controls)
       (simp_all add: backgroundFinally_controls recordNewGeneration_controls)
  also have "\<dots> = backgroundFinally job (deselectEffect ?r)"
    by (rule backgroundFinally_frame(2))
  finally show ?thesis .
qed

lemma step_AiModelSucceeded:
  "step (AiModelSucceeded m job img) st
     = aiModelFinally job (deselectEffect
         (recordNewGeneration m (aiActiveTab job) (aiIsMobileHistoryOpen job) img
            (aiNewId job) (aiFeatureKey job) st))"
proof -
  let ?r = "recordNewGeneration m (aiActiveTab job) (aiIsMobileHistoryOpen job) img
            (aiNewId job) (aiFeatureKey job) st"
  have "step (AiModelSucceeded m job img) st = afterRender st (aiModelFinally job ?r)"
    by (simp add: step_def aiModelGenerateSucceeded_def)
  also have "\<dots> = deselectEffect (aiModelFinally job ?r)"
    by (rule afterRender_same_controls)
       (simp_all add: aiModelFinally_controls recordNewGeneration_controls)
  also have "\<dots> = aiModelFinally job (deselectEffect ?r)"
    by (rule aiModelFinally_frame(2))
  finally show ?thesis .
qed

text \<open>
  When the selection is not the job's own pending record, a completion for a feature
  that is not in view leaves the canvas image as it is, right after
  \<open>recordNewGeneration\<close> and after the completion step of either handler. On the settings
  tab the effect that drops a selection of another feature's record guarantees this for
  a job whose record carries its key.
\<close>

lemma completion_keeps_canvas_when_settled:
  assumes r: "st = run evs initialState"
      and k: "K \<noteq> getCurrentFeatureKey st"
      and s: "activeGenerationId st \<noteq> Some gid
              \<or> (activeTab st = Settings
                  \<and> (\<forall>g. findGeneration gid (sessionGenerations st) = Some g \<longrightarrow> featureKey g = K))"
  shows "canvasDisplayUrl (recordNewGeneration m t ho img gid K st) = canvasDisplayUrl st
         \<and> canvasDisplayUrl
             (step (BackgroundSucceeded m
                \<lparr>bgNewId = gid, bgFeatureKey = K, bgEffectiveSubMode = e,
                 bgActiveTab = t, bgIsMobileHistoryOpen = ho\<rparr> img) st) = canvasDisplayUrl st
         \<and> canvasDisplayUrl
             (step (AiModelSucceeded m
                \<lparr>aiNewId = gid, aiFeatureKey = K, invokedModelSource = ms, aiModelImageUrl = mu,
                 aiActiveTab = t, aiIsMobileHistoryOpen = ho\<rparr> img) st) = canvasDisplayUrl st"
proof -
  let ?r = "recordNewGeneration m t ho img gid K st"
  have d: "deselectEffect st = st"
    using r deselectEffect_run by simp
  have own: "activeGenerationId st \<noteq> Some gid \<or> findGeneration gid (sessionGenerations st) = None"
  proof (rule ccontr)
    assume "\<not> ?thesis"
    then obtain g where a: "activeGenerationId st = Some gid"
      and f: "findGeneration gid (sessionGenerations st) = Some g"
      by auto
    from s a f have tab: "activeTab st = Settings" and fk: "featureKey g = K" by auto
    from d [unfolded deselectEffect_fixed_iff] tab a f
    have "featureKey g = getCurrentFeatureKey st" by blast
    with fk k show False by simp
  qed
  have c: "canvasDisplayUrl ?r = canvasDisplayUrl st"
    by (rule canvas_recordNewGeneration [OF k own])
  have dr: "deselectEffect ?r = ?r"
    by (rule settled_recordNewGeneration [OF k d])
  show ?thesis
    using c
    by (simp add: step_BackgroundSucceeded step_AiModelSucceeded dr backgroundFinally_frame(1)
          aiModelFinally_frame(1))
qed

text \<open>
  Whatever the state, the completion appends the image to the stack of the job's key,
  puts the cursor on it, and turns the job's record, if it is still in the log, into a
  done record with the image.
\<close>

lemma completion_stack_and_log:
  "images (generationStacks (recordNewGeneration m t ho img gid K st) K)
     = slice0 (images (generationStacks st K)) (currentIndex (generationStacks st K) + 1) @ [img]
   \<and> currentIndex (generationStacks (recordNewGeneration m t ho img gid K st) K)
     = int (length (images (generationStacks (recordNewGeneration m t ho img gid K st) K))) - 1
   \<and> findGeneration gid (sessionGenerations (recordNewGeneration m t ho img gid K st))
     = map_option (\<lambda>g. g\<lparr>src := Some img, status := Done\<rparr>)
         (findGeneration gid (sessionGenerations st))"
proof -
  have l: "findGeneration gid (sessionGenerations (recordNewGeneration m t ho img gid K st))
             = map_option (\<lambda>g. g\<lparr>src := Some img, status := Done\<rparr>)
                 (findGeneration gid (sessionGenerations st))"
  proof (cases "findGeneration gid (sessionGenerations st)")
    case None
    then show ?thesis by (simp add: findGeneration_recordNewGeneration)
  next
    case (Some g)
    then show ?thesis
      using findGeneration_in_set [OF Some] by (simp add: findGeneration_recordNewGeneration)
  qed
  show ?thesis using l by (simp add: recordNewGeneration_stacks)
qed

text \<open>
  Claim C1. A job with feature key \<open>K\<close> that succeeds while the key read from the ref
  cell differs from \<open>K\<close> must not change \<open>canvasDisplayUrl\<close>, and must append the image
  to the stack of \<open>K\<close> and mark the job's record done. The code does the last two, and
  breaks the first in the run evaluated here: the job is submitted while the history
  tab is active, so when the user picks the transparent swatch, which changes the
  feature in view through \<open>setBackgroundColor\<close> alone, neither a handler nor the effect
  (which runs on the settings tab only) drops the selection of the job's pending
  record; the completion does not select the record, as its comment says, but fills the
  \<open>src\<close> that the canvas is already reading, and the canvas goes from nothing to the
  result. The same run on the settings tab (last two conjuncts) leaves the canvas as it
  is.
\<close>

theorem stale_completion_on_history_tab:
  "snd (generateButton (run [FileUpload ''product.png'' ''data:product'' 640 480 Product,
                             OpenHistoryTab] initialState)) = Some (BgJob historyTabJob)
   \<and> bgFeatureKey historyTabJob = BackgroundColor
   \<and> currentFeatureKeyRef submittedOnHistoryTab = BackgroundTransparent
   \<and> activeGenerationId submittedOnHistoryTab = Some 0
   \<and> canvasDisplayUrl submittedOnHistoryTab = None
   \<and> canvasDisplayUrl
        (recordNewGeneration True History False ''D'' 0 BackgroundColor submittedOnHistoryTab)
       = Some ''D''
   \<and> canvasDisplayUrl (step (BackgroundSucceeded True historyTabJob ''D'') submittedOnHistoryTab)
       = Some ''D''
   \<and> generationStacks (step (BackgroundSucceeded True historyTabJob ''D'') submittedOnHistoryTab)
        BackgroundColor = \<lparr>images = [''D''], currentIndex = 0\<rparr>
   \<and> map_option status (findGeneration 0 (sessionGenerations
        (step (BackgroundSucceeded True historyTabJob ''D'') submittedOnHistoryTab))) = Some Done
   \<and> canvasDisplayUrl submittedOnSettingsTab = None
   \<and> canvasDisplayUrl (step (BackgroundSucceeded True (colorJob 0) ''D'') submittedOnSettingsTab)
       = None"
  by (simp add: submittedOnHistoryTab_def submittedOnSettingsTab_def historyTabJob_def
        colorJob_def engine)

end
